theory Spec2Isabelle
  imports Complex_Main
begin

section \<open>Numbers\<close>

text \<open>
  A JavaScript number is a double. The scoring functions are modelled with the rounding of
  every arithmetic operation: \<open>fl x\<close> is the double nearest to the real \<open>x\<close>, a tie going
  to the even significand (53 bits, exponents from -1022, subnormal numbers included); a
  product \<^verbatim>\<open>a * b\<close> of the program is \<open>fl (a * b)\<close>, and likewise a quotient and a sum,
  and a decimal literal \<^verbatim>\<open>0.8\<close> is \<open>fl (8 / 10)\<close>. Overflow to \<^verbatim>\<open>Infinity\<close>, \<^verbatim>\<open>NaN\<close>
  and division by zero lie outside the model: the statements below that depend on a
  quotient assume a non-zero divisor. \<^verbatim>\<open>Math.round(x)\<close> is exact on a double: the nearest
  integer, a tie going towards plus infinity, which is \<open>\<lfloor>x + 1/2\<rfloor>\<close>.

  The question generators are modelled in exact arithmetic: their products (a draw times a
  small integer, a small integer times \<^verbatim>\<open>0.3\<close>) only go into \<^verbatim>\<open>Math.floor\<close>.
\<close>

definition Math_round :: "real \<Rightarrow> int" where
  "Math_round x = \<lfloor>x + 1 / 2\<rfloor>"

definition Math_floor :: "real \<Rightarrow> int" where
  "Math_floor x = \<lfloor>x\<rfloor>"

text \<open>The power of two with an integer exponent.\<close>

definition pow2 :: "int \<Rightarrow> real" where
  "pow2 e = (if 0 \<le> e then 2 ^ nat e else 1 / 2 ^ nat (- e))"

text \<open>
  The binary exponent of a positive real: \<open>expo x\<close> is the integer \<open>e\<close> with
  \<open>2\<^sup>e \<le> x < 2\<^sup>e\<^sup>+\<^sup>1\<close>, found by halving or doubling.
\<close>

function expo :: "real \<Rightarrow> int" where
  "expo x =
     (if x < 1 then (if 0 < x then expo (2 * x) - 1 else 0)
      else if 2 \<le> x then expo (x / 2) + 1
      else 0)"
  by pat_completeness auto
termination
proof (relation "measure (\<lambda>x. nat \<lceil>x\<rceil> + 2 * nat \<lceil>1 / x\<rceil>)", goal_cases)
  case 1
  then show ?case by simp
next
  case (2 x)
  then have x: "0 < x" "x < 1" by simp_all
  have a: "\<lceil>x\<rceil> = 1" using x by (simp add: ceiling_eq_iff)
  have b: "\<lceil>2 * x\<rceil> \<le> 2" using x by (simp add: ceiling_le_iff)
  have b0: "0 < \<lceil>2 * x\<rceil>" using x by simp
  have y: "1 < 1 / x" using x by simp
  define y where "y = 1 / x"
  have y2: "1 / (2 * x) = y / 2" by (simp add: y_def)
  have y1: "1 < y" using y by (simp add: y_def)
  have "\<lceil>y / 2\<rceil> < \<lceil>y\<rceil>"
  proof (cases "2 \<le> y")
    case True
    have "of_int \<lceil>y / 2\<rceil> < y / 2 + 1" by linarith
    also have "\<dots> \<le> y" using True by linarith
    also have "\<dots> \<le> of_int \<lceil>y\<rceil>" by linarith
    finally show ?thesis by simp
  next
    case False
    then have "\<lceil>y / 2\<rceil> \<le> 1" by (simp add: ceiling_le_iff)
    moreover have "1 < \<lceil>y\<rceil>" using y1 by (simp add: less_ceiling_iff)
    ultimately show ?thesis by linarith
  qed
  then have c: "\<lceil>1 / (2 * x)\<rceil> < \<lceil>1 / x\<rceil>" by (simp only: y2 y_def [symmetric])
  have d: "0 < \<lceil>1 / (2 * x)\<rceil>" using x by simp
  have "nat \<lceil>x\<rceil> = 1" using a by simp
  moreover have "nat \<lceil>2 * x\<rceil> \<le> 2" using b by simp
  moreover have "nat \<lceil>1 / (2 * x)\<rceil> < nat \<lceil>1 / x\<rceil>" using c d by simp
  ultimately show ?case by (simp only: in_measure; linarith?)
next
  case (3 x)
  then have x: "2 \<le> x" by simp
  have a: "\<lceil>x / 2\<rceil> < \<lceil>x\<rceil>"
  proof -
    have "of_int \<lceil>x / 2\<rceil> < x / 2 + 1" by linarith
    also have "\<dots> \<le> x" using x by linarith
    also have "\<dots> \<le> of_int \<lceil>x\<rceil>" by linarith
    finally show ?thesis by simp
  qed
  have a0: "0 < \<lceil>x / 2\<rceil>" using x by simp
  have b: "\<lceil>1 / x\<rceil> = 1" using x by (simp add: ceiling_eq_iff)
  have c: "\<lceil>1 / (x / 2)\<rceil> = 1" using x by (simp add: ceiling_eq_iff)
  have "nat \<lceil>x / 2\<rceil> < nat \<lceil>x\<rceil>" using a a0 by simp
  moreover have "nat \<lceil>1 / (x / 2)\<rceil> = nat \<lceil>1 / x\<rceil>" using b c by simp
  ultimately show ?case by (simp only: in_measure; linarith?)
qed

text \<open>Rounding to the nearest integer, a tie going to the even one.\<close>

definition round_half_even :: "real \<Rightarrow> int" where
  "round_half_even y =
     (let f = \<lfloor>y\<rfloor>; d = y - of_int f
      in if d < 1 / 2 then f else if 1 / 2 < d then f + 1 else if even f then f else f + 1)"

text \<open>
  Rounding a real to a double: the significand is rounded at the unit in the last place of
  the binade of \<open>x\<close>, which for a subnormal number is \<open>2\<^sup>-\<^sup>1\<^sup>0\<^sup>7\<^sup>4\<close>.
\<close>

definition fl :: "real \<Rightarrow> real" where
  "fl x =
     (if x = 0 then 0
      else let e = max (expo \<bar>x\<bar>) (- 1022) - 52;
               m = round_half_even (\<bar>x\<bar> / pow2 e)
           in sgn x * of_int m * pow2 e)"

section \<open>Scoring\<close>

text \<open>
  The literal \<^verbatim>\<open>difficultyMultipliers\<close> object shared by both scoring functions, as a
  lookup by key; \<open>None\<close> is JavaScript's \<^verbatim>\<open>undefined\<close> for a missing key.
\<close>

definition difficultyMultipliers :: "string \<Rightarrow> real option" where
  "difficultyMultipliers d =
     (if d = ''easy'' then Some (fl (8 / 10))
      else if d = ''medium'' then Some 1
      else if d = ''hard'' then Some (fl (13 / 10))
      else None)"

text \<open>\<^verbatim>\<open>difficultyMultipliers[difficulty] || 1.0\<close>\<close>

definition multiplierOr1 :: "string \<Rightarrow> real" where
  "multiplierOr1 d = (case difficultyMultipliers d of None \<Rightarrow> 1 | Some m \<Rightarrow> m)"

text \<open>
  \<^verbatim>\<open>GameLogic.calculateQuestionPoints(timeRemaining, maxTime, responseTime, difficulty)\<close>:
  the third parameter is never read.
\<close>

definition calculateQuestionPoints :: "real \<Rightarrow> real \<Rightarrow> int \<Rightarrow> string \<Rightarrow> int" where
  "calculateQuestionPoints timeRemaining maxTime responseTime difficulty =
     (let basePoints = 100;
          points = fl (basePoints * multiplierOr1 difficulty);
          speedRatio = fl (timeRemaining / maxTime);
          speedBonus = Math_round (fl (fl (points * (1 / 2)) * speedRatio));
          points = fl (points + of_int speedBonus)
      in Math_round points)"

text \<open>\<^verbatim>\<open>PlayerManager.scoringConfig\<close>\<close>

record scoringConfig =
  correctAnswer_pts :: real
  timeBonus :: real
  streakMultiplier :: real
  wrongAnswer_pts :: real

definition scoringConfig0 :: scoringConfig where
  "scoringConfig0 =
     \<lparr>correctAnswer_pts = 100, timeBonus = 50, streakMultiplier = 3 / 2, wrongAnswer_pts = 0\<rparr>"

text \<open>\<^verbatim>\<open>PlayerManager.calculatePoints(timeRemaining, maxTime, streak, difficulty)\<close>\<close>

definition calculatePoints :: "real \<Rightarrow> real \<Rightarrow> real \<Rightarrow> string \<Rightarrow> int" where
  "calculatePoints timeRemaining maxTime streak difficulty =
     (let points = correctAnswer_pts scoringConfig0;
          points = fl (points * multiplierOr1 difficulty);
          points =
            (if timeRemaining > 0 \<and> maxTime > 0
             then let speedRatio = fl (timeRemaining / maxTime);
                      timeBonus = Math_round (fl (timeBonus scoringConfig0 * speedRatio))
                  in fl (points + of_int timeBonus)
             else points);
          points =
            (if streak \<ge> 3
             then let streakBonus = min (fl (streak / 10)) (1 / 2)
                  in of_int (Math_round (fl (points * fl (1 + streakBonus))))
             else points)
      in Math_round points)"

text \<open>
  The scoring function in the words of the specification (its section 4.3.1), to compare
  the code with: the three difficulties, the speed ratio clamped to \<open>[0, 1]\<close>, and the
  streak step. Its arithmetic is read as the program's: every operation is rounded to a
  double.
\<close>

datatype spec_difficulty = Easy | Medium | Hard

fun difficulty_name :: "spec_difficulty \<Rightarrow> string" where
  "difficulty_name Easy = ''easy''"
| "difficulty_name Medium = ''medium''"
| "difficulty_name Hard = ''hard''"

fun spec_difficultyMultiplier :: "spec_difficulty \<Rightarrow> real" where
  "spec_difficultyMultiplier Easy = fl (8 / 10)"
| "spec_difficultyMultiplier Medium = 1"
| "spec_difficultyMultiplier Hard = fl (13 / 10)"

definition spec_clamp :: "real \<Rightarrow> real \<Rightarrow> real \<Rightarrow> real" where
  "spec_clamp x lo hi = max lo (min hi x)"

definition spec_points :: "spec_difficulty \<Rightarrow> real \<Rightarrow> real \<Rightarrow> real \<Rightarrow> int" where
  "spec_points d maxTime timeRemaining stk =
     (let base = fl (100 * spec_difficultyMultiplier d);
          speedRatio = spec_clamp (fl (timeRemaining / maxTime)) 0 1;
          speedBonus = Math_round (fl (fl (base * (1 / 2)) * speedRatio));
          subtotal = fl (base + of_int speedBonus);
          subtotal =
            (if stk \<ge> 3
             then let streakBonus = min (fl (stk / 10)) (1 / 2)
                  in of_int (Math_round (fl (subtotal * fl (1 + streakBonus))))
             else subtotal)
      in Math_round subtotal)"

section \<open>Answers and their normalisation\<close>

text \<open>
  The values a client can put into \<^verbatim>\<open>answer\<close>, and the values stored in
  \<^verbatim>\<open>correctAnswer\<close>. Numbers are the integer-valued ones, which is what the generators
  produce and what \<^verbatim>\<open>toString\<close> renders as a plain decimal numeral.
\<close>

datatype js_value = JNumber int | JString string | JBoolean bool | JUndefined | JNull

definition digit_char :: "nat \<Rightarrow> char" where
  "digit_char n = ''0123456789'' ! n"

fun digits :: "nat \<Rightarrow> string" where
  "digits n = (if n < 10 then [digit_char n] else digits (n div 10) @ [digit_char (n mod 10)])"

text \<open>\<^verbatim>\<open>Number.prototype.toString\<close> on an integer-valued number.\<close>

definition Number_toString :: "int \<Rightarrow> string" where
  "Number_toString i = (if i < 0 then CHR ''-'' # digits (nat (- i)) else digits (nat i))"

text \<open>\<^verbatim>\<open>String(v)\<close>\<close>

fun String_of :: "js_value \<Rightarrow> string" where
  "String_of (JNumber n) = Number_toString n"
| "String_of (JString s) = s"
| "String_of (JBoolean b) = (if b then ''true'' else ''false'')"
| "String_of JUndefined = ''undefined''"
| "String_of JNull = ''null''"

text \<open>
  \<^verbatim>\<open>toLowerCase\<close> and \<^verbatim>\<open>trim\<close> on the ASCII range: a \<open>char\<close> is a byte, and the
  bytes of a character beyond ASCII are left as they are.
\<close>

definition toLowerCase_char :: "char \<Rightarrow> char" where
  "toLowerCase_char c =
     (case map_of (zip ''ABCDEFGHIJKLMNOPQRSTUVWXYZ'' ''abcdefghijklmnopqrstuvwxyz'') c of
        None \<Rightarrow> c
      | Some l \<Rightarrow> l)"

definition toLowerCase :: "string \<Rightarrow> string" where
  "toLowerCase s = map toLowerCase_char s"

definition isWhiteSpace :: "char \<Rightarrow> bool" where
  "isWhiteSpace c = ((of_char c :: nat) \<in> {9, 10, 11, 12, 13, 32})"

definition trim :: "string \<Rightarrow> string" where
  "trim s = rev (dropWhile isWhiteSpace (rev (dropWhile isWhiteSpace s)))"

record question =
  question_text :: string
  options :: "string list"
  correctAnswer :: js_value
  explanation :: string
  category :: string
  difficulty :: string
  qtype :: string
  q_id :: "string option"
  timeLimit :: "nat option"

text \<open>The local \<^verbatim>\<open>normalizeAnswer\<close> of \<^verbatim>\<open>GameLogic.checkAnswer\<close>: a number is returned as it is.\<close>

fun normalizeAnswer_gl :: "js_value \<Rightarrow> js_value" where
  "normalizeAnswer_gl (JNumber n) = JNumber n"
| "normalizeAnswer_gl (JString s) = JString (trim (toLowerCase s))"
| "normalizeAnswer_gl v = JString (trim (toLowerCase (String_of v)))"

text \<open>
  \<^verbatim>\<open>GameLogic.checkAnswer(question, answer)\<close>. Both normalised values are numbers or strings,
  on which \<^verbatim>\<open>===\<close> is equality of values of the same type.
\<close>

definition checkAnswer :: "question \<Rightarrow> js_value \<Rightarrow> bool" where
  "checkAnswer q answer =
     (let userAnswer = normalizeAnswer_gl answer;
          correct = normalizeAnswer_gl (correctAnswer q)
      in userAnswer = correct)"

text \<open>The local \<^verbatim>\<open>normalizeAnswer\<close> of \<^verbatim>\<open>QuestionBank.validateAnswer\<close>.\<close>

fun normalizeAnswer_qb :: "js_value \<Rightarrow> string" where
  "normalizeAnswer_qb (JNumber n) = Number_toString n"
| "normalizeAnswer_qb v = trim (toLowerCase (String_of v))"

text \<open>\<^verbatim>\<open>QuestionBank.validateAnswer(question, answer)\<close>\<close>

definition validateAnswer :: "question \<Rightarrow> js_value \<Rightarrow> bool" where
  "validateAnswer q answer = (normalizeAnswer_qb answer = normalizeAnswer_qb (correctAnswer q))"

section \<open>Question generation\<close>

text \<open>
  \<^verbatim>\<open>Math.random()\<close> is modelled by a tape: the list of the numbers it returns, in the order of
  the calls, each in \<open>[0, 1)\<close>. A function that draws gets the tape and returns what is left
  of it. A function that is still running when the tape ends has the value \<open>None\<close>; a loop
  that has the value \<open>None\<close> on every tape never exits.
\<close>

definition unit_interval :: "real \<Rightarrow> bool" where
  "unit_interval u = (0 \<le> u \<and> u < 1)"

text \<open>\<^verbatim>\<open>QuestionBank.randomInt(min, max)\<close>, for the number \<open>u\<close> drawn.\<close>

definition randomInt :: "int \<Rightarrow> int \<Rightarrow> real \<Rightarrow> int" where
  "randomInt mn mx u = Math_floor (u * of_int (mx - mn + 1)) + mn"

text \<open>
  The loop of \<^verbatim>\<open>QuestionBank.generateWrongAnswers(correct, count)\<close>; \<open>used\<close> is the
  \<^verbatim>\<open>Set\<close>, in insertion order.
\<close>

fun generateWrongAnswers_loop ::
  "real list \<Rightarrow> int \<Rightarrow> nat \<Rightarrow> string list \<Rightarrow> int list \<Rightarrow> (string list \<times> real list) option" where
  "generateWrongAnswers_loop rs correct count wrongAnswers used =
     (if length wrongAnswers < count
      then (case rs of
              [] \<Rightarrow> None
            | u # rs' \<Rightarrow>
                (let bound = max 1 (Math_floor (of_int correct * (3 / 10)));
                     offset = randomInt (- bound) bound u;
                     wrong = max 0 (correct + offset)
                 in if wrong \<notin> set used
                    then generateWrongAnswers_loop rs' correct count
                           (wrongAnswers @ [Number_toString wrong]) (used @ [wrong])
                    else generateWrongAnswers_loop rs' correct count wrongAnswers used))
      else Some (wrongAnswers, rs))"

definition generateWrongAnswers :: "real list \<Rightarrow> int \<Rightarrow> nat \<Rightarrow> (string list \<times> real list) option" where
  "generateWrongAnswers rs correct count = generateWrongAnswers_loop rs correct count [] [correct]"

text \<open>
  \<^verbatim>\<open>QuestionBank.shuffleArray(array)\<close>: the loop runs \<open>i\<close> from the last index down to 1 and
  swaps the entries at \<open>i\<close> and at the index drawn.
\<close>

fun shuffle_loop :: "nat \<Rightarrow> 'a list \<Rightarrow> real list \<Rightarrow> ('a list \<times> real list) option" where
  "shuffle_loop 0 shuffled rs = Some (shuffled, rs)"
| "shuffle_loop (Suc i) shuffled [] = None"
| "shuffle_loop (Suc i) shuffled (u # rs) =
     (let j = nat (Math_floor (u * of_nat (Suc i + 1)))
      in shuffle_loop i (shuffled[Suc i := shuffled ! j, j := shuffled ! Suc i]) rs)"

definition shuffleArray :: "'a list \<Rightarrow> real list \<Rightarrow> ('a list \<times> real list) option" where
  "shuffleArray array rs = shuffle_loop (length array - 1) array rs"

text \<open>The \<^verbatim>\<open>ranges\<close> table of \<^verbatim>\<open>generateSubtraction\<close> (and of \<^verbatim>\<open>generateAddition\<close>).\<close>

definition ranges :: "string \<Rightarrow> (int \<times> int) option" where
  "ranges d =
     (if d = ''easy'' then Some (1, 50)
      else if d = ''medium'' then Some (50, 500)
      else if d = ''hard'' then Some (500, 2000)
      else None)"

datatype error =
    SessionNotFound | NotPlaying | DuplicateAnswer | NoActiveQuestion
  | PlayerNotFound | RoomNotFound | RoomFull | AlreadyInRoom
  | InvalidName | DuplicateConnection | NotHost | InsufficientPlayers
  | TypeError

text \<open>
  \<^verbatim>\<open>QuestionBank.generateSubtraction(difficulty)\<close>. Reading \<^verbatim>\<open>range.min\<close> for a difficulty
  that is not in the table is a \<^verbatim>\<open>TypeError\<close>. The question text is in ASCII, without the
  inverted question mark and the accent.
\<close>

definition generateSubtraction :: "string \<Rightarrow> real list \<Rightarrow> (error + question) option" where
  "generateSubtraction d rs =
     (case ranges d of
        None \<Rightarrow> Some (Inl TypeError)
      | Some (mn, mx) \<Rightarrow>
          (case rs of
             u1 # u2 # rs2 \<Rightarrow>
               (let a = randomInt mn mx u1;
                    b = randomInt mn (min a mx) u2;
                    (a, b) = (if b > a then (b, a) else (a, b));
                    answer = a - b
                in case generateWrongAnswers rs2 answer 3 of
                     None \<Rightarrow> None
                   | Some (wrongAnswers, rs3) \<Rightarrow>
                       (case shuffleArray (Number_toString answer # wrongAnswers) rs3 of
                          None \<Rightarrow> None
                        | Some (opts, rs4) \<Rightarrow>
                            Some (Inr
                              \<lparr>question_text =
                                 ''Cuanto es '' @ Number_toString a @ '' - '' @ Number_toString b @ ''?'',
                               options = opts,
                               correctAnswer = JString (Number_toString answer),
                               explanation =
                                 Number_toString a @ '' - '' @ Number_toString b @ '' = ''
                                   @ Number_toString answer,
                               category = ''arithmetic'',
                               difficulty = d,
                               qtype = ''multiple_choice'',
                               q_id = None,
                               timeLimit = None\<rparr>)))
           | _ \<Rightarrow> None))"

section \<open>JavaScript maps and sorting\<close>

text \<open>
  A \<^verbatim>\<open>Map\<close> (and an object used as a dictionary) is an association list in insertion order:
  \<^verbatim>\<open>set\<close> on a present key replaces the value in place, on an absent key appends.
\<close>

definition Map_has :: "('k \<times> 'v) list \<Rightarrow> 'k \<Rightarrow> bool" where
  "Map_has m k = (map_of m k \<noteq> None)"

definition Map_get :: "('k \<times> 'v) list \<Rightarrow> 'k \<Rightarrow> 'v option" where
  "Map_get m k = map_of m k"

fun Map_set :: "('k \<times> 'v) list \<Rightarrow> 'k \<Rightarrow> 'v \<Rightarrow> ('k \<times> 'v) list" where
  "Map_set [] k v = [(k, v)]"
| "Map_set (p # m) k v = (if fst p = k then (k, v) # m else p # Map_set m k v)"

definition Map_delete :: "('k \<times> 'v) list \<Rightarrow> 'k \<Rightarrow> ('k \<times> 'v) list" where
  "Map_delete m k = filter (\<lambda>p. fst p \<noteq> k) m"

definition Map_size :: "('k \<times> 'v) list \<Rightarrow> nat" where
  "Map_size m = length m"

definition Map_values :: "('k \<times> 'v) list \<Rightarrow> 'v list" where
  "Map_values m = map snd m"

text \<open>
  \<^verbatim>\<open>Array.prototype.sort(compare)\<close> is a stable sort: with a comparator that is a consistent
  ordering, as the two of this program are, it is insertion from the left, each element
  going behind the elements that do not compare greater.
\<close>

fun insert_by :: "('a \<Rightarrow> 'a \<Rightarrow> int) \<Rightarrow> 'a \<Rightarrow> 'a list \<Rightarrow> 'a list" where
  "insert_by cmp x [] = [x]"
| "insert_by cmp x (y # ys) = (if cmp y x \<le> 0 then y # insert_by cmp x ys else x # y # ys)"

definition sort_by :: "('a \<Rightarrow> 'a \<Rightarrow> int) \<Rightarrow> 'a list \<Rightarrow> 'a list" where
  "sort_by cmp xs = foldl (\<lambda>acc x. insert_by cmp x acc) [] xs"

section \<open>PlayerManager\<close>

text \<open>
  The player object of \<^verbatim>\<open>createPlayer\<close>, without the avatar, the connection flags and the
  timestamps, which no operation below reads.
\<close>

record player =
  p_id :: string
  p_name :: string
  isHost :: bool
  score :: int
  correctAnswers :: nat
  wrongAnswers :: nat
  streak :: nat
  bestStreak :: nat
  averageResponseTime :: int
  totalQuestions :: nat
  correctByCategory :: "(string \<times> nat) list"
  responseTimes :: "int list"
  difficultyPerformance :: "(string \<times> nat \<times> nat) list"

type_synonym playerManager = "(string \<times> player) list"

definition name_char :: "char \<Rightarrow> bool" where
  "name_char c =
     (let n = (of_char c :: nat)
      in (97 \<le> n \<and> n \<le> 122) \<or> (65 \<le> n \<and> n \<le> 90) \<or> (48 \<le> n \<and> n \<le> 57)
         \<or> isWhiteSpace c \<or> n = 45 \<or> n = 95)"

text \<open>\<^verbatim>\<open>PlayerManager.isValidPlayerName(name)\<close>, for a name that is a string.\<close>

definition isValidPlayerName :: "string \<Rightarrow> bool" where
  "isValidPlayerName name =
     (length (trim name) \<ge> 2 \<and> length (trim name) \<le> 20
      \<and> trim name \<noteq> [] \<and> list_all name_char (trim name))"

text \<open>\<^verbatim>\<open>PlayerManager.createPlayer(socketId, playerName, isHost)\<close>\<close>

definition createPlayer ::
  "playerManager \<Rightarrow> string \<Rightarrow> string \<Rightarrow> bool \<Rightarrow> playerManager \<times> (error + player)" where
  "createPlayer pm socketId playerName host =
     (if \<not> isValidPlayerName playerName then (pm, Inl InvalidName)
      else if Map_has pm socketId then (pm, Inl DuplicateConnection)
      else
        (let playerData =
               \<lparr>p_id = socketId, p_name = trim playerName, isHost = host,
                score = 0, correctAnswers = 0, wrongAnswers = 0, streak = 0, bestStreak = 0,
                averageResponseTime = 0, totalQuestions = 0,
                correctByCategory = [(''arithmetic'', 0), (''logic'', 0), (''geometry'', 0)],
                responseTimes = [],
                difficultyPerformance =
                  [(''easy'', 0, 0), (''medium'', 0, 0), (''hard'', 0, 0)]\<rparr>
         in (Map_set pm socketId playerData, Inr playerData)))"

text \<open>\<^verbatim>\<open>PlayerManager.getPlayer(playerId)\<close>\<close>

definition getPlayer :: "playerManager \<Rightarrow> string \<Rightarrow> player option" where
  "getPlayer pm playerId = Map_get pm playerId"

text \<open>\<^verbatim>\<open>PlayerManager.calculateAverageResponseTime(responseTimes)\<close>\<close>

definition calculateAverageResponseTime :: "int list \<Rightarrow> int" where
  "calculateAverageResponseTime rts =
     (if length rts = 0 then 0
      else Math_round (fl (of_int (foldl (+) 0 rts) / of_nat (length rts))))"

text \<open>What \<^verbatim>\<open>updatePlayerScore\<close> returns.\<close>

record scoreUpdate =
  su_playerId :: string
  su_playerName :: string
  su_pointsAdded :: int
  su_oldScore :: int
  su_newScore :: int
  su_isCorrect :: bool
  su_currentStreak :: nat
  su_bestStreak :: nat
  su_totalQuestions :: nat

text \<open>
  \<^verbatim>\<open>PlayerManager.updatePlayerScore(playerId, points, isCorrect = true, responseTime = 0,
  category = '', difficulty = 'medium')\<close>. A caller that leaves an argument out gets the
  default; the model takes every argument, so such a caller passes the default.
\<close>

definition updatePlayerScore ::
  "playerManager \<Rightarrow> string \<Rightarrow> int \<Rightarrow> bool \<Rightarrow> int \<Rightarrow> string \<Rightarrow> string
     \<Rightarrow> playerManager \<times> (error + scoreUpdate)" where
  "updatePlayerScore pm playerId points correct responseTime cat diff =
     (case getPlayer pm playerId of
        None \<Rightarrow> (pm, Inl PlayerNotFound)
      | Some player \<Rightarrow>
          (let oldScore = score player;
               player = player\<lparr>score := score player + points\<rparr>;
               player = player\<lparr>totalQuestions := totalQuestions player + 1\<rparr>;
               player =
                 (if correct
                  then (let player = player\<lparr>correctAnswers := correctAnswers player + 1\<rparr>;
                            player = player\<lparr>streak := streak player + 1\<rparr>;
                            player = player\<lparr>bestStreak := max (bestStreak player) (streak player)\<rparr>
                        in case (if cat \<noteq> [] then Map_get (correctByCategory player) cat else None) of
                             Some n \<Rightarrow>
                               player\<lparr>correctByCategory := Map_set (correctByCategory player) cat (n + 1)\<rparr>
                           | None \<Rightarrow> player)
                  else (let player = player\<lparr>wrongAnswers := wrongAnswers player + 1\<rparr>
                        in player\<lparr>streak := 0\<rparr>));
               player =
                 (case Map_get (difficultyPerformance player) diff of
                    Some (c, t) \<Rightarrow>
                      player\<lparr>difficultyPerformance :=
                        Map_set (difficultyPerformance player) diff
                          (if correct then c + 1 else c, t + 1)\<rparr>
                  | None \<Rightarrow> player);
               player =
                 (if responseTime > 0
                  then (let player = player\<lparr>responseTimes := responseTimes player @ [responseTime]\<rparr>
                        in player\<lparr>averageResponseTime :=
                             calculateAverageResponseTime (responseTimes player)\<rparr>)
                  else player);
               result =
                 \<lparr>su_playerId = playerId, su_playerName = p_name player, su_pointsAdded = points,
                  su_oldScore = oldScore, su_newScore = score player, su_isCorrect = correct,
                  su_currentStreak = streak player, su_bestStreak = bestStreak player,
                  su_totalQuestions = totalQuestions player\<rparr>
           in (Map_set pm playerId player, Inr result)))"

text \<open>\<^verbatim>\<open>PlayerManager.setAsHost(playerId)\<close>\<close>

definition setAsHost :: "playerManager \<Rightarrow> string \<Rightarrow> playerManager \<times> bool" where
  "setAsHost pm playerId =
     (case getPlayer pm playerId of
        None \<Rightarrow> (pm, False)
      | Some player \<Rightarrow> (Map_set pm playerId (player\<lparr>isHost := True\<rparr>), True))"

text \<open>\<^verbatim>\<open>PlayerManager.removePlayer(playerId)\<close>\<close>

definition removePlayer :: "playerManager \<Rightarrow> string \<Rightarrow> playerManager \<times> player option" where
  "removePlayer pm playerId =
     (case Map_get pm playerId of
        None \<Rightarrow> (pm, None)
      | Some player \<Rightarrow> (Map_delete pm playerId, Some player))"

section \<open>RoomManager\<close>

text \<open>
  \<^verbatim>\<open>room.players\<close> and \<^verbatim>\<open>session.players\<close> hold references to the player objects of the
  \<^verbatim>\<open>PlayerManager\<close>. Through these references the program reads \<^verbatim>\<open>id\<close> and \<^verbatim>\<open>name\<close>
  only, which are never assigned after creation, so an entry is modelled by these two fields.
\<close>

record player_ref =
  ref_id :: string
  ref_name :: string

definition ref_of :: "player \<Rightarrow> player_ref" where
  "ref_of p = \<lparr>ref_id = p_id p, ref_name = p_name p\<rparr>"

record settings =
  st_maxPlayers :: nat
  st_questionTime :: real
  st_totalQuestions :: nat
  st_difficultyLevel :: string
  st_categories :: "string list"

text \<open>A settings object sent by a client or passed by a caller: every key may be absent.\<close>

record customSettings =
  cs_maxPlayers :: "nat option"
  cs_questionTime :: "real option"
  cs_totalQuestions :: "nat option"
  cs_difficultyLevel :: "string option"
  cs_categories :: "string list option"

definition noSettings :: customSettings where
  "noSettings =
     \<lparr>cs_maxPlayers = None, cs_questionTime = None, cs_totalQuestions = None,
      cs_difficultyLevel = None, cs_categories = None\<rparr>"

definition defaultSettings :: settings where
  "defaultSettings =
     \<lparr>st_maxPlayers = 30, st_questionTime = 30, st_totalQuestions = 10,
      st_difficultyLevel = ''medium'',
      st_categories = [''arithmetic'', ''logic'', ''geometry'']\<rparr>"

text \<open>\<^verbatim>\<open>{ ...this.defaultSettings, ...customSettings }\<close>\<close>

definition mergeSettings :: "settings \<Rightarrow> customSettings \<Rightarrow> settings" where
  "mergeSettings d c =
     \<lparr>st_maxPlayers = (case cs_maxPlayers c of None \<Rightarrow> st_maxPlayers d | Some v \<Rightarrow> v),
      st_questionTime = (case cs_questionTime c of None \<Rightarrow> st_questionTime d | Some v \<Rightarrow> v),
      st_totalQuestions = (case cs_totalQuestions c of None \<Rightarrow> st_totalQuestions d | Some v \<Rightarrow> v),
      st_difficultyLevel =
        (case cs_difficultyLevel c of None \<Rightarrow> st_difficultyLevel d | Some v \<Rightarrow> v),
      st_categories = (case cs_categories c of None \<Rightarrow> st_categories d | Some v \<Rightarrow> v)\<rparr>"

text \<open>
  The room object of \<^verbatim>\<open>createRoom\<close>, without its timestamps; of \<^verbatim>\<open>gameState\<close> the
  \<^verbatim>\<open>scores\<close> object is kept, the only part that is ever written.
\<close>

record room =
  r_code :: string
  r_hostId :: string
  r_players :: "player_ref list"
  r_settings :: settings
  r_status :: string
  r_maxPlayers :: nat
  r_scores :: "(string \<times> int) list"

type_synonym roomManager = "(string \<times> room) list"

definition code_chars :: string where
  "code_chars = ''ABCDEFGHIJKLMNOPQRSTUVWXYZ0123456789''"

text \<open>
  \<^verbatim>\<open>RoomManager.generateRoomCode()\<close>: six draws make a code, and the \<^verbatim>\<open>do ... while\<close> draws
  again while the code is taken.
\<close>

fun generateRoomCode :: "roomManager \<Rightarrow> real list \<Rightarrow> (string \<times> real list) option" where
  "generateRoomCode rooms (u1 # u2 # u3 # u4 # u5 # u6 # rs) =
     (let code = map (\<lambda>u. code_chars ! nat (Math_floor (u * of_nat (length code_chars))))
                   [u1, u2, u3, u4, u5, u6]
      in if Map_has rooms code then generateRoomCode rooms rs else Some (code, rs))"
| "generateRoomCode rooms rs = None"

text \<open>\<^verbatim>\<open>RoomManager.createRoom(hostId, customSettings = {})\<close>\<close>

definition createRoom ::
  "roomManager \<Rightarrow> string \<Rightarrow> customSettings \<Rightarrow> real list \<Rightarrow> (roomManager \<times> room \<times> real list) option" where
  "createRoom rooms host custom rs =
     (case generateRoomCode rooms rs of
        None \<Rightarrow> None
      | Some (roomCode, rs') \<Rightarrow>
          (let st = mergeSettings defaultSettings custom;
               roomData =
                 \<lparr>r_code = roomCode, r_hostId = host, r_players = [], r_settings = st,
                  r_status = ''waiting'', r_maxPlayers = st_maxPlayers st, r_scores = []\<rparr>
           in Some (Map_set rooms roomCode roomData, roomData, rs')))"

text \<open>\<^verbatim>\<open>RoomManager.getRoom(roomCode)\<close>\<close>

definition getRoom :: "roomManager \<Rightarrow> string \<Rightarrow> room option" where
  "getRoom rooms roomCode = Map_get rooms roomCode"

text \<open>\<^verbatim>\<open>RoomManager.addPlayerToRoom(roomCode, player)\<close>\<close>

definition addPlayerToRoom :: "roomManager \<Rightarrow> string \<Rightarrow> player \<Rightarrow> roomManager \<times> (error + bool)" where
  "addPlayerToRoom rooms roomCode p =
     (case getRoom rooms roomCode of
        None \<Rightarrow> (rooms, Inl RoomNotFound)
      | Some room \<Rightarrow>
          if length (r_players room) \<ge> r_maxPlayers room then (rooms, Inl RoomFull)
          else if find (\<lambda>q. ref_id q = p_id p) (r_players room) \<noteq> None
          then (rooms, Inl AlreadyInRoom)
          else
            (let room = room\<lparr>r_players := r_players room @ [ref_of p]\<rparr>;
                 room = room\<lparr>r_scores := Map_set (r_scores room) (p_id p) 0\<rparr>
             in (Map_set rooms roomCode room, Inr True)))"

text \<open>\<^verbatim>\<open>Array.prototype.findIndex\<close>; \<open>None\<close> is the result -1.\<close>

fun findIndex :: "('a \<Rightarrow> bool) \<Rightarrow> 'a list \<Rightarrow> nat option" where
  "findIndex P [] = None"
| "findIndex P (x # xs) =
     (if P x then Some 0 else (case findIndex P xs of None \<Rightarrow> None | Some i \<Rightarrow> Some (i + 1)))"

text \<open>\<^verbatim>\<open>RoomManager.removePlayerFromRoom(roomCode, playerId)\<close>\<close>

definition removePlayerFromRoom :: "roomManager \<Rightarrow> string \<Rightarrow> string \<Rightarrow> roomManager \<times> bool" where
  "removePlayerFromRoom rooms roomCode playerId =
     (case getRoom rooms roomCode of
        None \<Rightarrow> (rooms, False)
      | Some room \<Rightarrow>
          (case findIndex (\<lambda>q. ref_id q = playerId) (r_players room) of
             None \<Rightarrow> (rooms, False)
           | Some playerIndex \<Rightarrow>
                 (let room = room\<lparr>r_players := take playerIndex (r_players room)
                                               @ drop (playerIndex + 1) (r_players room)\<rparr>;
                      room = room\<lparr>r_scores := Map_delete (r_scores room) playerId\<rparr>
                  in (Map_set rooms roomCode room, True))))"

text \<open>\<^verbatim>\<open>RoomManager.findRoomByPlayerId(playerId)\<close>\<close>

definition findRoomByPlayerId :: "roomManager \<Rightarrow> string \<Rightarrow> room option" where
  "findRoomByPlayerId rooms playerId =
     (case find (\<lambda>(roomCode, room). find (\<lambda>q. ref_id q = playerId) (r_players room) \<noteq> None) rooms of
        None \<Rightarrow> None
      | Some (roomCode, room) \<Rightarrow> Some room)"

text \<open>\<^verbatim>\<open>RoomManager.closeRoom(roomCode)\<close>\<close>

definition closeRoom :: "roomManager \<Rightarrow> string \<Rightarrow> roomManager \<times> bool" where
  "closeRoom rooms roomCode =
     (case Map_get rooms roomCode of
        None \<Rightarrow> (rooms, False)
      | Some room \<Rightarrow> (Map_delete rooms roomCode, True))"

section \<open>GameLogic\<close>

record answerData =
  a_playerId :: string
  a_answer :: js_value
  a_isCorrect :: bool
  a_responseTime :: int
  a_timeRemaining :: real
  a_pointsEarned :: int
  a_timestamp :: int

record rankEntry =
  re_playerId :: string
  re_playerName :: string
  re_totalScore :: int
  re_rank :: nat

record roundRank =
  rr_rank :: nat
  rr_playerId :: string
  rr_isCorrect :: bool
  rr_pointsEarned :: int
  rr_responseTime :: int
  rr_currentTotalScore :: "int option"

text \<open>
  The round result of \<^verbatim>\<open>getRoundResults\<close>. Of its \<^verbatim>\<open>stats\<close> the three counts are kept;
  the accuracy and the response-time aggregates, quotients by the number of answers, are
  left out.
\<close>

record roundResult =
  rd_questionNumber :: nat
  rd_question :: question
  rd_correctAnswer :: js_value
  rd_explanation :: string
  rd_totalPlayers :: nat
  rd_playersAnswered :: nat
  rd_correctAnswers :: nat
  rd_roundRanking :: "roundRank list"
  rd_overallRanking :: "rankEntry list"

record sessionSettings =
  ss_totalQuestions :: nat
  ss_questionTime :: real
  ss_difficultyLevel :: string
  ss_categories :: "string list"

text \<open>
  The session object of \<^verbatim>\<open>initializeGame\<close>. The two timer fields are left out: they are
  initialised to \<^verbatim>\<open>null\<close> and never assigned. Times are milliseconds.
\<close>

record session =
  s_roomCode :: string
  s_players :: "player_ref list"
  s_settings :: sessionSettings
  s_status :: string
  currentQuestionIndex :: nat
  currentQuestion :: "question option"
  questions :: "question list"
  currentRoundAnswers :: "(string \<times> answerData) list"
  allAnswersReceived :: bool
  playerScores :: "(string \<times> int) list"
  roundResults :: "roundResult list"
  gameStartedAt :: "int option"
  questionStartedAt :: "int option"
  totalQuestionsAnswered :: nat
  fastestResponse :: "int option"
  slowestResponse :: "int option"

type_synonym gameLogic = "(string \<times> session) list"

text \<open>
  The \<^verbatim>\<open>while (attempts < 10)\<close> loop of \<^verbatim>\<open>QuestionBank.getQuestionSet\<close> for one slot.
  \<open>pick k\<close> is the question that the call of \<^verbatim>\<open>getRandomQuestion\<close> in attempt \<open>k\<close> returns;
  the first argument counts the attempts that are left.
\<close>

fun unique_attempts ::
  "nat \<Rightarrow> (nat \<Rightarrow> question) \<Rightarrow> nat \<Rightarrow> string list \<Rightarrow> question option
     \<Rightarrow> question option \<times> string list" where
  "unique_attempts 0 pick attempts used q = (q, used)"
| "unique_attempts (Suc n) pick attempts used q =
     (let question = pick attempts;
          questionKey = question_text question @ ''-'' @ String_of (correctAnswer question)
      in if questionKey \<notin> set used then (Some question, used @ [questionKey])
         else unique_attempts n pick (attempts + 1) used (Some question))"

text \<open>The \<^verbatim>\<open>for\<close> loop of \<^verbatim>\<open>getQuestionSet\<close>; the first argument is \<^verbatim>\<open>count - i\<close>.\<close>

fun getQuestionSet_loop ::
  "nat \<Rightarrow> (nat \<Rightarrow> nat \<Rightarrow> question) \<Rightarrow> nat \<Rightarrow> string list \<Rightarrow> question list \<Rightarrow> question list" where
  "getQuestionSet_loop 0 pick i used qs = qs"
| "getQuestionSet_loop (Suc n) pick i used qs =
     (case unique_attempts 10 (pick i) 0 used None of
        (None, used') \<Rightarrow> getQuestionSet_loop n pick (i + 1) used' qs
      | (Some question, used') \<Rightarrow>
          getQuestionSet_loop n pick (i + 1) used'
            (qs @ [question\<lparr>q_id := Some (''q_'' @ Number_toString (int i + 1)),
                            timeLimit := Some 30\<rparr>]))"

text \<open>
  \<^verbatim>\<open>QuestionBank.getQuestionSet(count, difficulty, categories)\<close>. The difficulty and the
  categories only go into the calls of \<^verbatim>\<open>getRandomQuestion\<close>, whose results are \<open>pick\<close>.
\<close>

definition getQuestionSet :: "nat \<Rightarrow> (nat \<Rightarrow> nat \<Rightarrow> question) \<Rightarrow> question list" where
  "getQuestionSet count pick = getQuestionSet_loop count pick 0 [] []"

text \<open>\<^verbatim>\<open>GameLogic.getGameSession(roomCode)\<close>\<close>

definition getGameSession :: "gameLogic \<Rightarrow> string \<Rightarrow> session option" where
  "getGameSession gl roomCode = Map_get gl roomCode"

text \<open>
  \<^verbatim>\<open>GameLogic.initializeGame(roomCode, players, gameSettings = {})\<close>; \<^verbatim>\<open>x || d\<close> is \<open>d\<close>
  when \<open>x\<close> is absent, zero or the empty string.
\<close>

definition initializeGame ::
  "gameLogic \<Rightarrow> string \<Rightarrow> player_ref list \<Rightarrow> customSettings \<Rightarrow> (nat \<Rightarrow> nat \<Rightarrow> question)
     \<Rightarrow> gameLogic \<times> session" where
  "initializeGame gl roomCode players gameSettings pick =
     (let st =
            \<lparr>ss_totalQuestions =
               (case cs_totalQuestions gameSettings of
                  None \<Rightarrow> 10 | Some n \<Rightarrow> if n = 0 then 10 else n),
             ss_questionTime =
               (case cs_questionTime gameSettings of
                  None \<Rightarrow> 30 | Some t \<Rightarrow> if t = 0 then 30 else t),
             ss_difficultyLevel =
               (case cs_difficultyLevel gameSettings of
                  None \<Rightarrow> ''medium'' | Some d \<Rightarrow> if d = [] then ''medium'' else d),
             ss_categories =
               (case cs_categories gameSettings of
                  None \<Rightarrow> [''arithmetic'', ''logic'', ''geometry''] | Some c \<Rightarrow> c)\<rparr>;
          gameSession =
            \<lparr>s_roomCode = roomCode, s_players = players, s_settings = st,
             s_status = ''starting'', currentQuestionIndex = 0, currentQuestion = None,
             questions = [], currentRoundAnswers = [], allAnswersReceived = False,
             playerScores = [], roundResults = [], gameStartedAt = None,
             questionStartedAt = None, totalQuestionsAnswered = 0,
             fastestResponse = None, slowestResponse = None\<rparr>;
          gameSession =
            gameSession\<lparr>playerScores :=
              foldl (\<lambda>m p. Map_set m (ref_id p) 0) (playerScores gameSession) players\<rparr>;
          gameSession =
            gameSession\<lparr>questions := getQuestionSet (ss_totalQuestions st) pick\<rparr>
      in (Map_set gl roomCode gameSession, gameSession))"

text \<open>\<^verbatim>\<open>GameLogic.setCurrentQuestion(roomCode, question)\<close>, at the time \<open>now\<close>.\<close>

definition setCurrentQuestion ::
  "gameLogic \<Rightarrow> string \<Rightarrow> question \<Rightarrow> int \<Rightarrow> gameLogic \<times> (error + bool)" where
  "setCurrentQuestion gl roomCode q now =
     (case getGameSession gl roomCode of
        None \<Rightarrow> (gl, Inl SessionNotFound)
      | Some session \<Rightarrow>
          (let session = session\<lparr>currentQuestion := Some q\<rparr>;
               session = session\<lparr>questionStartedAt := Some now\<rparr>;
               session = session\<lparr>s_status := ''playing''\<rparr>;
               session = session\<lparr>currentRoundAnswers := []\<rparr>;
               session = session\<lparr>allAnswersReceived := False\<rparr>
           in (Map_set gl roomCode session, Inr True)))"

text \<open>\<^verbatim>\<open>GameLogic.calculateResponseTime(questionStartTime)\<close>, at the time \<open>now\<close>.\<close>

definition calculateResponseTime :: "int option \<Rightarrow> int \<Rightarrow> int" where
  "calculateResponseTime questionStartTime now =
     now - (case questionStartTime of None \<Rightarrow> 0 | Some t \<Rightarrow> t)"

text \<open>\<^verbatim>\<open>GameLogic.updateGameStats(session, answerData)\<close>\<close>

definition updateGameStats :: "session \<Rightarrow> answerData \<Rightarrow> session" where
  "updateGameStats session ad =
     (let session = session\<lparr>totalQuestionsAnswered := totalQuestionsAnswered session + 1\<rparr>;
          session =
            (if (case fastestResponse session of
                   None \<Rightarrow> True | Some f \<Rightarrow> f = 0 \<or> a_responseTime ad < f)
             then session\<lparr>fastestResponse := Some (a_responseTime ad)\<rparr> else session)
      in if (case slowestResponse session of
               None \<Rightarrow> True | Some sl \<Rightarrow> sl = 0 \<or> a_responseTime ad > sl)
         then session\<lparr>slowestResponse := Some (a_responseTime ad)\<rparr> else session)"

record answerResult =
  ar_isCorrect :: bool
  ar_pointsEarned :: int
  ar_responseTime :: int
  ar_allAnswersReceived :: bool

text \<open>
  \<^verbatim>\<open>GameLogic.processAnswer(roomCode, playerId, answer, timeRemaining)\<close>, at the time
  \<open>now\<close>. Every \<^verbatim>\<open>throw\<close> comes before the first assignment.
\<close>

definition processAnswer ::
  "gameLogic \<Rightarrow> string \<Rightarrow> string \<Rightarrow> js_value \<Rightarrow> real \<Rightarrow> int \<Rightarrow> gameLogic \<times> (error + answerResult)" where
  "processAnswer gl roomCode playerId answer timeRemaining now =
     (case getGameSession gl roomCode of
        None \<Rightarrow> (gl, Inl SessionNotFound)
      | Some session \<Rightarrow>
          if s_status session \<noteq> ''playing'' then (gl, Inl NotPlaying)
          else if Map_has (currentRoundAnswers session) playerId then (gl, Inl DuplicateAnswer)
          else
            (case currentQuestion session of
               None \<Rightarrow> (gl, Inl NoActiveQuestion)
             | Some q \<Rightarrow>
                 (let responseTime = calculateResponseTime (questionStartedAt session) now;
                      correct = checkAnswer q answer;
                      points =
                        (if correct
                         then calculateQuestionPoints timeRemaining
                                (ss_questionTime (s_settings session)) responseTime (difficulty q)
                         else 0);
                      ad =
                        \<lparr>a_playerId = playerId, a_answer = answer, a_isCorrect = correct,
                         a_responseTime = responseTime, a_timeRemaining = timeRemaining,
                         a_pointsEarned = points, a_timestamp = now\<rparr>;
                      session =
                        session\<lparr>currentRoundAnswers :=
                          Map_set (currentRoundAnswers session) playerId ad\<rparr>;
                      currentScore =
                        (case Map_get (playerScores session) playerId of
                           None \<Rightarrow> 0 | Some v \<Rightarrow> v);
                      session =
                        session\<lparr>playerScores :=
                          Map_set (playerScores session) playerId (currentScore + points)\<rparr>;
                      session = updateGameStats session ad;
                      session =
                        session\<lparr>allAnswersReceived :=
                          (Map_size (currentRoundAnswers session) \<ge> length (s_players session))\<rparr>
                  in (Map_set gl roomCode session,
                      Inr \<lparr>ar_isCorrect = correct, ar_pointsEarned = points,
                           ar_responseTime = responseTime,
                           ar_allAnswersReceived = allAnswersReceived session\<rparr>))))"

text \<open>\<^verbatim>\<open>GameLogic.allPlayersAnswered(roomCode)\<close>\<close>

definition allPlayersAnswered :: "gameLogic \<Rightarrow> string \<Rightarrow> bool" where
  "allPlayersAnswered gl roomCode =
     (case getGameSession gl roomCode of None \<Rightarrow> False | Some session \<Rightarrow> allAnswersReceived session)"

text \<open>\<^verbatim>\<open>GameLogic.getOverallRanking(session)\<close>\<close>

definition getOverallRanking :: "session \<Rightarrow> rankEntry list" where
  "getOverallRanking session =
     map (\<lambda>(index, e). e\<lparr>re_rank := index + 1\<rparr>)
       (enumerate 0
         (sort_by (\<lambda>a b. re_totalScore b - re_totalScore a)
           (map (\<lambda>(playerId, sc).
                   \<lparr>re_playerId = playerId,
                    re_playerName =
                      (case find (\<lambda>p. ref_id p = playerId) (s_players session) of
                         Some p \<Rightarrow> ref_name p | None \<Rightarrow> ''Desconocido''),
                    re_totalScore = sc, re_rank = 0\<rparr>)
              (playerScores session))))"

text \<open>The comparator of the round ranking.\<close>

definition roundCompare :: "answerData \<Rightarrow> answerData \<Rightarrow> int" where
  "roundCompare a b =
     (if a_isCorrect b \<noteq> a_isCorrect a then of_bool (a_isCorrect b) - of_bool (a_isCorrect a)
      else if a_pointsEarned b \<noteq> a_pointsEarned a then a_pointsEarned b - a_pointsEarned a
      else a_responseTime a - a_responseTime b)"

text \<open>
  \<^verbatim>\<open>GameLogic.getRoundResults(roomCode)\<close>. Reading \<^verbatim>\<open>currentQuestion.correctAnswer\<close> when
  no question is set is a \<^verbatim>\<open>TypeError\<close>.
\<close>

definition getRoundResults :: "gameLogic \<Rightarrow> string \<Rightarrow> gameLogic \<times> (error + roundResult)" where
  "getRoundResults gl roomCode =
     (case getGameSession gl roomCode of
        None \<Rightarrow> (gl, Inl SessionNotFound)
      | Some session \<Rightarrow>
          (let answers = Map_values (currentRoundAnswers session);
               correctCount = length (filter a_isCorrect answers);
               roundRanking =
                 map (\<lambda>(index, a).
                        \<lparr>rr_rank = index + 1, rr_playerId = a_playerId a,
                         rr_isCorrect = a_isCorrect a, rr_pointsEarned = a_pointsEarned a,
                         rr_responseTime = a_responseTime a,
                         rr_currentTotalScore = Map_get (playerScores session) (a_playerId a)\<rparr>)
                   (enumerate 0 (sort_by roundCompare answers))
           in case currentQuestion session of
                None \<Rightarrow> (gl, Inl TypeError)
              | Some q \<Rightarrow>
                  (let roundResult =
                         \<lparr>rd_questionNumber = currentQuestionIndex session + 1,
                          rd_question = q, rd_correctAnswer = correctAnswer q,
                          rd_explanation = explanation q,
                          rd_totalPlayers = length (s_players session),
                          rd_playersAnswered = length answers,
                          rd_correctAnswers = correctCount,
                          rd_roundRanking = roundRanking,
                          rd_overallRanking = getOverallRanking session\<rparr>;
                       session = session\<lparr>roundResults := roundResults session @ [roundResult]\<rparr>;
                       session = session\<lparr>s_status := ''showing_results''\<rparr>
                   in (Map_set gl roomCode session, Inr roundResult))))"

text \<open>
  \<^verbatim>\<open>GameLogic.getNextQuestion(roomCode)\<close>, at the time \<open>now\<close>; \<open>None\<close> is \<^verbatim>\<open>null\<close>, and
  the pair is the question with its number.
\<close>

definition getNextQuestion ::
  "gameLogic \<Rightarrow> string \<Rightarrow> int \<Rightarrow> gameLogic \<times> (question \<times> nat) option" where
  "getNextQuestion gl roomCode now =
     (case getGameSession gl roomCode of
        None \<Rightarrow> (gl, None)
      | Some session \<Rightarrow>
          (let session = session\<lparr>currentQuestionIndex := currentQuestionIndex session + 1\<rparr>
           in if currentQuestionIndex session \<ge> length (questions session)
              then (Map_set gl roomCode (session\<lparr>s_status := ''finished''\<rparr>), None)
              else
                (let nextQuestion = questions session ! currentQuestionIndex session;
                     gl = Map_set gl roomCode session;
                     gl = fst (setCurrentQuestion gl roomCode nextQuestion now)
                 in (gl, Some (nextQuestion, currentQuestionIndex session + 1)))))"

text \<open>
  The final results of \<^verbatim>\<open>getFinalResults\<close>, without the aggregate statistics and the
  duration.
\<close>

record finalResults =
  fr_gameId :: string
  fr_totalQuestions :: nat
  fr_totalPlayers :: nat
  fr_finalRanking :: "rankEntry list"
  fr_winner :: "rankEntry option"
  fr_roundHistory :: "roundResult list"

text \<open>\<^verbatim>\<open>GameLogic.getFinalResults(roomCode)\<close>\<close>

definition getFinalResults :: "gameLogic \<Rightarrow> string \<Rightarrow> gameLogic \<times> (error + finalResults)" where
  "getFinalResults gl roomCode =
     (case getGameSession gl roomCode of
        None \<Rightarrow> (gl, Inl SessionNotFound)
      | Some session \<Rightarrow>
          (let session = session\<lparr>s_status := ''finished''\<rparr>;
               finalRanking = getOverallRanking session;
               results =
                 \<lparr>fr_gameId = roomCode,
                  fr_totalQuestions = length (questions session),
                  fr_totalPlayers = length (s_players session),
                  fr_finalRanking = finalRanking,
                  fr_winner = (case finalRanking of [] \<Rightarrow> None | w # _ \<Rightarrow> Some w),
                  fr_roundHistory = roundResults session\<rparr>
           in (Map_set gl roomCode session, Inr results)))"

text \<open>
  \<^verbatim>\<open>GameLogic.closeGameSession(roomCode)\<close>. The two \<^verbatim>\<open>clearTimeout\<close> calls are guarded by
  the timer fields, which are always \<^verbatim>\<open>null\<close>.
\<close>

definition closeGameSession :: "gameLogic \<Rightarrow> string \<Rightarrow> gameLogic \<times> bool" where
  "closeGameSession gl roomCode =
     (case Map_get gl roomCode of
        None \<Rightarrow> (gl, False)
      | Some session \<Rightarrow> (Map_delete gl roomCode, True))"

section \<open>The server: event handlers and deferred callbacks\<close>

text \<open>
  What a handler emits, with the parts of the payloads that the properties below read, and
  the callbacks it passes to \<^verbatim>\<open>setTimeout\<close>. A callback closes over the values named in
  its constructor.
\<close>

datatype message =
    ErrorMsg error
  | RoomCreated string
  | RoomJoined string
  | PlayerJoined string nat
  | GameStarted nat
  | NewQuestion question nat real
  | AnswerResultMsg bool int int
  | RoundResults roundResult
  | GameFinished finalResults
  | PlayerDisconnected string nat
  | HostChanged string

datatype event = ToSocket string message | ToRoom string message

datatype timer = FirstQuestionTimer string question real | AdvanceTimer string

text \<open>The three manager objects of the server module.\<close>

record server =
  rooms :: roomManager
  players :: playerManager
  gameSessions :: gameLogic

definition server0 :: server where
  "server0 = \<lparr>rooms = [], players = [], gameSessions = []\<rparr>"

text \<open>
  \<^verbatim>\<open>socket.on('create-room')\<close> for the socket \<open>sid\<close>. The room is created before the player
  is, and stays when creating the player throws.
\<close>

definition on_create_room ::
  "string \<Rightarrow> string \<Rightarrow> customSettings \<Rightarrow> real list \<Rightarrow> server \<Rightarrow> (server \<times> event list) option" where
  "on_create_room sid playerName gameSettings rs srv =
     (case createRoom (rooms srv) sid gameSettings rs of
        None \<Rightarrow> None
      | Some (rm, room, rs') \<Rightarrow>
          (let srv = srv\<lparr>rooms := rm\<rparr>
           in case createPlayer (players srv) sid playerName True of
                (pm, Inl e) \<Rightarrow> Some (srv, [ToSocket sid (ErrorMsg e)])
              | (pm, Inr player) \<Rightarrow>
                  (let srv = srv\<lparr>players := pm\<rparr>
                   in case addPlayerToRoom (rooms srv) (r_code room) player of
                        (rm, Inl e) \<Rightarrow> Some (srv, [ToSocket sid (ErrorMsg e)])
                      | (rm, Inr ok) \<Rightarrow>
                          Some (srv\<lparr>rooms := rm\<rparr>, [ToSocket sid (RoomCreated (r_code room))]))))"

text \<open>\<^verbatim>\<open>socket.on('join-room')\<close>\<close>

definition on_join_room :: "string \<Rightarrow> string \<Rightarrow> string \<Rightarrow> server \<Rightarrow> server \<times> event list" where
  "on_join_room sid playerName roomCode srv =
     (case getRoom (rooms srv) roomCode of
        None \<Rightarrow> (srv, [ToSocket sid (ErrorMsg RoomNotFound)])
      | Some room \<Rightarrow>
          if length (r_players room) \<ge> r_maxPlayers room
          then (srv, [ToSocket sid (ErrorMsg RoomFull)])
          else
            (case createPlayer (players srv) sid playerName False of
               (pm, Inl e) \<Rightarrow> (srv, [ToSocket sid (ErrorMsg e)])
             | (pm, Inr player) \<Rightarrow>
                 (let srv = srv\<lparr>players := pm\<rparr>
                  in case addPlayerToRoom (rooms srv) roomCode player of
                       (rm, Inl e) \<Rightarrow> (srv, [ToSocket sid (ErrorMsg e)])
                     | (rm, Inr ok) \<Rightarrow>
                         (srv\<lparr>rooms := rm\<rparr>,
                          [ToSocket sid (RoomJoined roomCode),
                           ToRoom roomCode
                             (PlayerJoined (p_name player) (length (r_players room) + 1))]))))"

text \<open>
  \<^verbatim>\<open>socket.on('start-game')\<close>, at the time \<open>now\<close>. \<open>pick\<close> stands for the calls of
  \<^verbatim>\<open>getRandomQuestion\<close> inside \<^verbatim>\<open>initializeGame\<close> and \<open>firstQuestion\<close> for the call in the
  handler. \<^verbatim>\<open>initializeGame\<close> is called with two arguments.
\<close>

definition on_start_game ::
  "string \<Rightarrow> string \<Rightarrow> question \<Rightarrow> (nat \<Rightarrow> nat \<Rightarrow> question) \<Rightarrow> int \<Rightarrow> server
     \<Rightarrow> server \<times> event list \<times> timer list" where
  "on_start_game sid roomCode firstQuestion pick now srv =
     (case getRoom (rooms srv) roomCode of
        None \<Rightarrow> (srv, [ToSocket sid (ErrorMsg RoomNotFound)], [])
      | Some room \<Rightarrow>
          (case getPlayer (players srv) sid of
             None \<Rightarrow> (srv, [ToSocket sid (ErrorMsg NotHost)], [])
           | Some player \<Rightarrow>
               if \<not> isHost player then (srv, [ToSocket sid (ErrorMsg NotHost)], [])
               else if length (r_players room) < 2
               then (srv, [ToSocket sid (ErrorMsg InsufficientPlayers)], [])
               else
                 (let srv = srv\<lparr>gameSessions :=
                              fst (initializeGame (gameSessions srv) roomCode (r_players room)
                                     noSettings pick)\<rparr>
                  in case setCurrentQuestion (gameSessions srv) roomCode firstQuestion now of
                       (gl, Inl e) \<Rightarrow> (srv, [ToSocket sid (ErrorMsg e)], [])
                     | (gl, Inr ok) \<Rightarrow>
                         (srv\<lparr>gameSessions := gl\<rparr>,
                          [ToRoom roomCode (GameStarted (st_totalQuestions (r_settings room)))],
                          [FirstQuestionTimer roomCode firstQuestion
                             (st_questionTime (r_settings room))]))))"

text \<open>
  \<^verbatim>\<open>socket.on('submit-answer')\<close>, at the time \<open>now\<close>. \<^verbatim>\<open>updatePlayerScore\<close> is called with
  two arguments, so its other four parameters have their defaults.
\<close>

definition on_submit_answer ::
  "string \<Rightarrow> string \<Rightarrow> js_value \<Rightarrow> real \<Rightarrow> int \<Rightarrow> server \<Rightarrow> server \<times> event list \<times> timer list" where
  "on_submit_answer sid roomCode answer timeRemaining now srv =
     (case getPlayer (players srv) sid of
        None \<Rightarrow> (srv, [ToSocket sid (ErrorMsg PlayerNotFound)], [])
      | Some player \<Rightarrow>
          (case processAnswer (gameSessions srv) roomCode (p_id player) answer timeRemaining now of
             (gl, Inl e) \<Rightarrow> (srv, [ToSocket sid (ErrorMsg e)], [])
           | (gl, Inr result) \<Rightarrow>
               (let srv = srv\<lparr>gameSessions := gl\<rparr>
                in case updatePlayerScore (players srv) (p_id player) (ar_pointsEarned result)
                          True 0 [] ''medium'' of
                     (pm, Inl e) \<Rightarrow> (srv, [ToSocket sid (ErrorMsg e)], [])
                   | (pm, Inr upd) \<Rightarrow>
                       (let srv = srv\<lparr>players := pm\<rparr>
                        in case getPlayer (players srv) (p_id player) of
                             None \<Rightarrow> (srv, [ToSocket sid (ErrorMsg TypeError)], [])
                           | Some p \<Rightarrow>
                               (let ev =
                                      ToSocket sid
                                        (AnswerResultMsg (ar_isCorrect result)
                                           (ar_pointsEarned result) (score p))
                                in if allPlayersAnswered (gameSessions srv) roomCode
                                   then
                                     (case getRoundResults (gameSessions srv) roomCode of
                                        (gl, Inl e) \<Rightarrow> (srv, [ev, ToSocket sid (ErrorMsg e)], [])
                                      | (gl, Inr rr) \<Rightarrow>
                                          (srv\<lparr>gameSessions := gl\<rparr>,
                                           [ev, ToRoom roomCode (RoundResults rr)],
                                           [AdvanceTimer roomCode]))
                                   else (srv, [ev], []))))))"

text \<open>
  The callback of the \<^verbatim>\<open>setTimeout\<close> in \<^verbatim>\<open>submit-answer\<close>, run at the time \<open>now\<close>. It is
  not inside the handler's \<^verbatim>\<open>try\<close>: \<open>Inl\<close> is the exception it throws, with the state it
  leaves. Reading \<^verbatim>\<open>.settings\<close> of a room that \<^verbatim>\<open>getRoom\<close> does not find is a
  \<^verbatim>\<open>TypeError\<close>.
\<close>

definition fire_advance :: "string \<Rightarrow> int \<Rightarrow> server \<Rightarrow> server \<times> (error + event list)" where
  "fire_advance roomCode now srv =
     (case getNextQuestion (gameSessions srv) roomCode now of
        (gl, Some (q, n)) \<Rightarrow>
          (let srv = srv\<lparr>gameSessions := gl\<rparr>
           in case getRoom (rooms srv) roomCode of
                None \<Rightarrow> (srv, Inl TypeError)
              | Some room \<Rightarrow>
                  (srv, Inr [ToRoom roomCode (NewQuestion q n (st_questionTime (r_settings room)))]))
      | (gl, None) \<Rightarrow>
          (let srv = srv\<lparr>gameSessions := gl\<rparr>
           in case getFinalResults (gameSessions srv) roomCode of
                (gl, Inl e) \<Rightarrow> (srv, Inl e)
              | (gl, Inr fr) \<Rightarrow>
                  (srv\<lparr>gameSessions := gl\<rparr>, Inr [ToRoom roomCode (GameFinished fr)])))"

text \<open>Running a callback when its delay has passed.\<close>

fun fire :: "timer \<Rightarrow> int \<Rightarrow> server \<Rightarrow> server \<times> (error + event list)" where
  "fire (FirstQuestionTimer roomCode q limit) now srv =
     (srv, Inr [ToRoom roomCode (NewQuestion q 1 limit)])"
| "fire (AdvanceTimer roomCode) now srv = fire_advance roomCode now srv"

text \<open>
  \<^verbatim>\<open>socket.on('disconnect')\<close>. The handler holds the room object that
  \<^verbatim>\<open>removePlayerFromRoom\<close> changes in place, so after the removal it reads the changed room.
\<close>

definition on_disconnect :: "string \<Rightarrow> server \<Rightarrow> server \<times> event list" where
  "on_disconnect sid srv =
     (case getPlayer (players srv) sid of
        None \<Rightarrow> (srv, [])
      | Some player \<Rightarrow>
          (let (srv, evs) =
                 (case findRoomByPlayerId (rooms srv) sid of
                    None \<Rightarrow> (srv, [])
                  | Some found \<Rightarrow>
                      (let srv = srv\<lparr>rooms := fst (removePlayerFromRoom (rooms srv) (r_code found) sid)\<rparr>;
                           room = (case Map_get (rooms srv) (r_code found) of
                                     None \<Rightarrow> found | Some r \<Rightarrow> r);
                           ev = ToRoom (r_code room)
                                  (PlayerDisconnected (p_name player) (length (r_players room)))
                       in if isHost player
                          then (case r_players room of
                                  newHost # others \<Rightarrow>
                                    (srv\<lparr>players := fst (setAsHost (players srv) (ref_id newHost))\<rparr>,
                                     [ev, ToRoom (r_code room) (HostChanged (ref_name newHost))])
                                | [] \<Rightarrow>
                                    (srv\<lparr>rooms := fst (closeRoom (rooms srv) (r_code room))\<rparr>, [ev]))
                          else (srv, [ev])))
           in (srv\<lparr>players := fst (removePlayer (players srv) sid)\<rparr>, evs)))"

section \<open>Runs\<close>

text \<open>
  A sequence of \<^verbatim>\<open>processAnswer\<close> calls, each with its room code, player, answer, time
  remaining and time of the call; a call that throws leaves the state as it is.
\<close>

fun processAnswers :: "gameLogic \<Rightarrow> (string \<times> string \<times> js_value \<times> real \<times> int) list \<Rightarrow> gameLogic" where
  "processAnswers gl [] = gl"
| "processAnswers gl ((rc, pid, a, t, n) # cs) =
     processAnswers (fst (processAnswer gl rc pid a t n)) cs"

text \<open>The answer recorded for a player in the current round of a room's session.\<close>

definition recordedAnswer :: "gameLogic \<Rightarrow> string \<Rightarrow> string \<Rightarrow> answerData option" where
  "recordedAnswer gl rc pid =
     (case getGameSession gl rc of
        None \<Rightarrow> None
      | Some s \<Rightarrow> Map_get (currentRoundAnswers s) pid)"

section \<open>Example data\<close>

text \<open>
  Three questions of the predefined bank (their texts in ASCII), and the shape of a
  generated addition question.
\<close>

definition q_easy :: question where
  "q_easy =
     \<lparr>question_text = ''Cuanto es 15 + 23?'', options = [''38'', ''37'', ''39'', ''36''],
      correctAnswer = JString ''38'', explanation = ''15 + 23 = 38.'',
      category = ''arithmetic'', difficulty = ''easy'', qtype = ''multiple_choice'',
      q_id = None, timeLimit = None\<rparr>"

definition q_medium :: question where
  "q_medium =
     \<lparr>question_text = ''Cuanto es 156 + 289?'', options = [''445'', ''435'', ''455'', ''425''],
      correctAnswer = JString ''445'', explanation = ''156 + 289 = 445.'',
      category = ''arithmetic'', difficulty = ''medium'', qtype = ''multiple_choice'',
      q_id = None, timeLimit = None\<rparr>"

definition q_hard :: question where
  "q_hard =
     \<lparr>question_text = ''Cuanto es 1,247 + 3,856 - 2,199?'',
      options = [''2,904'', ''2,894'', ''2,914'', ''2,884''],
      correctAnswer = JString ''2,904'', explanation = ''1,247 + 3,856 = 5,103; 5,103 - 2,199 = 2,904.'',
      category = ''arithmetic'', difficulty = ''hard'', qtype = ''multiple_choice'',
      q_id = None, timeLimit = None\<rparr>"

definition addition_question :: "int \<Rightarrow> int \<Rightarrow> question" where
  "addition_question a b =
     \<lparr>question_text = ''Cuanto es '' @ Number_toString a @ '' + '' @ Number_toString b @ ''?'',
      options = map Number_toString [a + b, a + b + 1, a + b - 1, a + b + 2],
      correctAnswer = JString (Number_toString (a + b)),
      explanation = Number_toString a @ '' + '' @ Number_toString b @ '' = '' @ Number_toString (a + b),
      category = ''arithmetic'', difficulty = ''medium'', qtype = ''multiple_choice'',
      q_id = None, timeLimit = None\<rparr>"

text \<open>A choice of the questions that \<^verbatim>\<open>getRandomQuestion\<close> returns, by slot and attempt.\<close>

definition pick_example :: "nat \<Rightarrow> nat \<Rightarrow> question" where
  "pick_example i k = addition_question (50 + int i) (60 + int k)"

text \<open>
  The end-to-end run: the host creates a room for 3 questions of 10 seconds each, a guest
  joins, the host starts the game, and in each of three rounds both players answer and the
  deferred callback of the round runs.
\<close>

definition e2e_settings :: customSettings where
  "e2e_settings = noSettings\<lparr>cs_questionTime := Some 10, cs_totalQuestions := Some 3\<rparr>"

definition e2e_created :: server where
  "e2e_created =
     (case on_create_room ''h'' ''Host'' e2e_settings [0, 0, 0, 0, 0, 0] server0 of
        None \<Rightarrow> server0 | Some (srv, evs) \<Rightarrow> srv)"

definition e2e_joined :: server where
  "e2e_joined = fst (on_join_room ''g'' ''Guest'' ''AAAAAA'' e2e_created)"

definition e2e_started :: server where
  "e2e_started = fst (on_start_game ''h'' ''AAAAAA'' q_easy pick_example 0 e2e_joined)"

text \<open>
  One round: the host answers with \<open>a1\<close>, the guest with \<open>a2\<close>, and then the callback
  scheduled by the second answer runs.
\<close>

definition e2e_round :: "js_value \<Rightarrow> js_value \<Rightarrow> int \<Rightarrow> server \<Rightarrow> server \<times> (error + event list)" where
  "e2e_round a1 a2 now srv =
     (let srv = fst (on_submit_answer ''h'' ''AAAAAA'' a1 8 (now + 2000) srv);
          srv = fst (on_submit_answer ''g'' ''AAAAAA'' a2 6 (now + 4000) srv)
      in fire (AdvanceTimer ''AAAAAA'') (now + 9000) srv)"

definition e2e_round1 :: server where
  "e2e_round1 = fst (e2e_round (JString ''38'') (JString ''37'') 3000 e2e_started)"

definition e2e_round2 :: server where
  "e2e_round2 = fst (e2e_round (JString ''111'') (JString ''111'') 12000 e2e_round1)"

definition e2e_round3 :: "server \<times> (error + event list)" where
  "e2e_round3 = e2e_round (JString ''112'') (JString ''112'') 21000 e2e_round2"

text \<open>
  Another course of the first round: both players answer, so that the callback is
  scheduled, and then both disconnect before it runs.
\<close>

definition e2e_answered :: server where
  "e2e_answered =
     fst (on_submit_answer ''g'' ''AAAAAA'' (JString ''37'') 6 4000
            (fst (on_submit_answer ''h'' ''AAAAAA'' (JString ''38'') 8 2000 e2e_started)))"

definition e2e_abandoned :: server where
  "e2e_abandoned = fst (on_disconnect ''h'' (fst (on_disconnect ''g'' e2e_answered)))"


text \<open>
  The same room with a game whose first question is the hard question, and what
  \<^verbatim>\<open>processAnswer\<close> returns there for the host's correct answer after 2 seconds with
  \<^verbatim>\<open>timeRemaining = 30\<close>.
\<close>

definition hard_started :: server where
  "hard_started = fst (on_start_game ''h'' ''AAAAAA'' q_hard pick_example 0 e2e_joined)"

definition hard_result :: answerResult where
  "hard_result =
     \<lparr>ar_isCorrect = True, ar_pointsEarned = 195, ar_responseTime = 2000,
      ar_allAnswersReceived = False\<rparr>"

text \<open>
  A game in the same room whose fifth question is the hard question, after four rounds in
  which both players have answered correctly.
\<close>

definition pick_streak :: "nat \<Rightarrow> nat \<Rightarrow> question" where
  "pick_streak i k = (if i = 4 then q_hard else addition_question (50 + int i) (60 + int k))"

definition streak_started :: server where
  "streak_started = fst (on_start_game ''h'' ''AAAAAA'' q_easy pick_streak 0 e2e_joined)"

definition streak_round4 :: server where
  "streak_round4 =
     fst (e2e_round (JString ''113'') (JString ''113'') 30000
       (fst (e2e_round (JString ''112'') (JString ''112'') 21000
         (fst (e2e_round (JString ''111'') (JString ''111'') 12000
           (fst (e2e_round (JString ''38'') (JString ''38'') 3000 streak_started)))))))"

text \<open>
  A number of rounds in which both players give the correct answer of the current question,
  each round followed by its callback; the result is the state and what the last callback
  has emitted or thrown.
\<close>

fun play_rounds :: "nat \<Rightarrow> int \<Rightarrow> server \<times> (error + event list) \<Rightarrow> server \<times> (error + event list)" where
  "play_rounds 0 now st = st"
| "play_rounds (Suc k) now st =
     play_rounds k (now + 9000)
       (case getGameSession (gameSessions (fst st)) ''AAAAAA'' of
          None \<Rightarrow> st
        | Some s \<Rightarrow>
            (case currentQuestion s of
               None \<Rightarrow> st
             | Some q \<Rightarrow> e2e_round (correctAnswer q) (correctAnswer q) now (fst st)))"

section \<open>Rounding to a double\<close>

lemma pow2_powr: "pow2 e = (2::real) powr (of_int e)"
proof (cases "0 \<le> e")
  case True
  then show ?thesis by (simp add: pow2_def powr_realpow [symmetric])
next
  case False
  have "(2::real) powr (of_int e) = 1 / 2 powr (of_int (- e))"
    using powr_minus_divide [of "2::real" "of_int (- e)"] by simp
  also have "\<dots> = 1 / 2 ^ nat (- e)" using False by (simp add: powr_realpow [symmetric])
  finally show ?thesis using False by (simp add: pow2_def)
qed

lemma pow2_le_iff: "pow2 a \<le> pow2 b \<longleftrightarrow> a \<le> b" by (simp add: pow2_powr)
lemma pow2_less_iff: "pow2 a < pow2 b \<longleftrightarrow> a < b" by (simp add: pow2_powr)

lemma pow2_pos: "0 < pow2 e" by (simp add: pow2_powr)
lemma pow2_add: "pow2 (a + b) = pow2 a * pow2 b" by (simp add: pow2_powr powr_add)
lemma pow2_mono: "a \<le> b \<Longrightarrow> pow2 a \<le> pow2 b" by (simp add: pow2_powr)
lemma pow2_0: "pow2 0 = 1" by (simp add: pow2_def)

declare expo.simps [simp del]

lemma expo_bounds: "0 < x \<Longrightarrow> pow2 (expo x) \<le> x \<and> x < pow2 (expo x + 1)"
proof (induction x rule: expo.induct)
  case (1 x)
  show ?case
  proof (cases "x < 1")
    case True
    have e: "expo x = expo (2 * x) - 1" using True "1.prems" by (subst expo.simps) simp
    have ih: "pow2 (expo (2 * x)) \<le> 2 * x \<and> 2 * x < pow2 (expo (2 * x) + 1)"
      using "1.IH"(1) [OF True] "1.prems" by simp
    have "pow2 (expo (2 * x)) = 2 * pow2 (expo (2 * x) - 1)"
      using pow2_add [of "expo (2 * x) - 1" 1] by (simp add: pow2_def)
    moreover have "pow2 (expo (2 * x) + 1) = 2 * pow2 (expo (2 * x))"
      using pow2_add [of "expo (2 * x)" 1] by (simp add: pow2_def)
    ultimately show ?thesis using ih e by simp
  next
    case False
    show ?thesis
    proof (cases "2 \<le> x")
      case True
      have e: "expo x = expo (x / 2) + 1" using True False by (subst expo.simps) simp
      have ih: "pow2 (expo (x / 2)) \<le> x / 2 \<and> x / 2 < pow2 (expo (x / 2) + 1)"
        using "1.IH"(2) [OF False True] "1.prems" by simp
      have "pow2 (expo (x / 2) + 1) = 2 * pow2 (expo (x / 2))"
        using pow2_add [of "expo (x / 2)" 1] by (simp add: pow2_def)
      moreover have "pow2 (expo (x / 2) + 1 + 1) = 2 * pow2 (expo (x / 2) + 1)"
        using pow2_add [of "expo (x / 2) + 1" 1] by (simp add: pow2_def)
      ultimately show ?thesis using ih e by simp
    next
      case F2: False
      have e: "expo x = 0" using False F2 by (subst expo.simps) simp
      show ?thesis using False F2 by (simp add: e pow2_def)
    qed
  qed
qed

lemma round_half_even_bounds:
  "of_int (round_half_even y) \<le> y + 1 / 2 \<and> y - 1 / 2 \<le> of_int (round_half_even y)"
  unfolding round_half_even_def Let_def by (auto; linarith)

lemma round_half_even_le_int:
  assumes "y \<le> of_int k"
  shows "round_half_even y \<le> k"
proof -
  show ?thesis
  proof (cases "y = of_int k")
    case True
    then show ?thesis by (simp add: round_half_even_def)
  next
    case False
    then have "y < of_int k" using assms by simp
    then have "\<lfloor>y\<rfloor> < k" by (simp add: floor_less_iff)
    then show ?thesis unfolding round_half_even_def Let_def by auto
  qed
qed

lemma round_half_even_nonneg: "0 \<le> y \<Longrightarrow> 0 \<le> round_half_even y"
  unfolding round_half_even_def Let_def by auto

lemma fl_1: "fl 1 = 1" by code_simp

lemma fl_unit:
  assumes "0 \<le> x" "x \<le> 1"
  shows "0 \<le> fl x \<and> fl x \<le> 1"
proof (cases "x = 0 \<or> x = 1")
  case True
  then show ?thesis using fl_1 by (auto simp: fl_def)
next
  case False
  then have x: "0 < x" "x < 1" using assms by simp_all
  define E where "E = max (expo \<bar>x\<bar>) (- 1022)"
  define m where "m = round_half_even (\<bar>x\<bar> / pow2 (E - 52))"
  have fl: "fl x = of_int m * pow2 (E - 52)"
    using x by (simp add: fl_def Let_def E_def m_def)
  have m0: "0 \<le> m" unfolding m_def using x pow2_pos [of "E - 52"]
    by (intro round_half_even_nonneg) simp
  have lo: "0 \<le> fl x" using m0 pow2_pos [of "E - 52"] by (simp add: fl)
  have b: "pow2 (expo x) \<le> x" "x < pow2 (expo x + 1)" using expo_bounds [OF x(1)] by simp_all
  have "pow2 (expo x) < pow2 0" using b(1) x(2) by (simp add: pow2_0)
  then have ex: "expo x < 0" by (simp only: pow2_less_iff)
  have E0: "E + 1 \<le> 0" using ex x by (simp add: E_def)
  have "x < pow2 (E + 1)"
  proof -
    have "pow2 (expo x + 1) \<le> pow2 (E + 1)" using x by (intro pow2_mono) (simp add: E_def)
    then show ?thesis using b(2) by simp
  qed
  moreover have split: "pow2 (E + 1) = pow2 53 * pow2 (E - 52)"
  proof -
    have "E + 1 = 53 + (E - 52)" by simp
    then show ?thesis by (simp only: pow2_add)
  qed
  ultimately have "\<bar>x\<bar> / pow2 (E - 52) < pow2 53" using x pow2_pos [of "E - 52"]
    by (simp add: field_simps)
  moreover have p53: "pow2 53 = of_int (2 ^ 53)" by (simp add: pow2_def)
  ultimately have "m \<le> 2 ^ 53" unfolding m_def by (intro round_half_even_le_int) simp
  then have "of_int m * pow2 (E - 52) \<le> of_int (2 ^ 53) * pow2 (E - 52)"
    using pow2_pos [of "E - 52"] by (intro mult_right_mono) simp_all
  also have "\<dots> = pow2 (E + 1)" using split p53 by simp
  also have "\<dots> \<le> pow2 0" using E0 by (rule pow2_mono)
  finally show ?thesis using lo by (simp add: fl pow2_0)
qed

lemma fl_0: "fl 0 = 0" by (simp add: fl_def)

lemma fl_50: "fl 50 = 50" by code_simp

lemma fl_100: "fl 100 = 100" by code_simp

text \<open>
  The rounding at work: 0.8, 0.29 and 0.3 are not doubles, and \<^verbatim>\<open>50 * 0.29\<close> is below
  14.5 in doubles.
\<close>

lemma fl_examples:
  "fl (8 / 10) = 3602879701896397 / 4503599627370496
   \<and> fl (100 * fl (8 / 10)) = 80 \<and> fl (100 * fl (13 / 10)) = 130
   \<and> fl (29 / 100) = 5224175567749775 / 18014398509481984
   \<and> fl (50 * fl (29 / 100)) = 8162774324609023 / 562949953421312
   \<and> fl (50 * fl (fl (3 / 10) / 30)) = 1 / 2"
  by code_simp

section \<open>Maps and the accepting branch of \<^verbatim>\<open>processAnswer\<close>\<close>

lemma Map_get_set: "Map_get (Map_set m k v) k' = (if k' = k then Some v else Map_get m k')"
  by (induction m) (auto simp: Map_get_def)

lemma Map_has_set: "Map_has (Map_set m k v) k' = (k' = k \<or> Map_has m k')"
  by (simp add: Map_has_def Map_get_set [unfolded Map_get_def])


lemma Map_get_delete: "Map_get (Map_delete m k) k' = (if k' = k then None else Map_get m k')"
  by (induction m) (auto simp: Map_get_def Map_delete_def)

lemma updateGameStats_fields [simp]:
  "s_status (updateGameStats s ad) = s_status s"
  "s_players (updateGameStats s ad) = s_players s"
  "s_settings (updateGameStats s ad) = s_settings s"
  "currentRoundAnswers (updateGameStats s ad) = currentRoundAnswers s"
  "playerScores (updateGameStats s ad) = playerScores s"
  "currentQuestion (updateGameStats s ad) = currentQuestion s"
  "currentQuestionIndex (updateGameStats s ad) = currentQuestionIndex s"
  "questions (updateGameStats s ad) = questions s"
  "roundResults (updateGameStats s ad) = roundResults s"
  "allAnswersReceived (updateGameStats s ad) = allAnswersReceived s"
  "questionStartedAt (updateGameStats s ad) = questionStartedAt s"
  by (simp_all add: updateGameStats_def Let_def)

lemma getGameSession_set:
  "getGameSession (Map_set gl rc s) rc' = (if rc' = rc then Some s else getGameSession gl rc')"
  by (simp add: getGameSession_def Map_get_set)

lemma processAnswer_accepts_raw:
  assumes "getGameSession gl rc = Some s" "s_status s = ''playing''"
    "\<not> Map_has (currentRoundAnswers s) pid" "currentQuestion s = Some q"
  shows "case processAnswer gl rc pid a t n of
      (gl', Inl e) \<Rightarrow> False
    | (gl', Inr res) \<Rightarrow>
       (case getGameSession gl' rc of
          None \<Rightarrow> False
        | Some s' \<Rightarrow>
     gl' = Map_set gl rc s'
     \<and> s_status s' = ''playing'' \<and> s_players s' = s_players s \<and> s_settings s' = s_settings s
     \<and> currentQuestion s' = Some q \<and> roundResults s' = roundResults s
     \<and> questions s' = questions s \<and> currentQuestionIndex s' = currentQuestionIndex s
     \<and> ar_isCorrect res = checkAnswer q a
     \<and> ar_pointsEarned res =
          (if checkAnswer q a
           then calculateQuestionPoints t (ss_questionTime (s_settings s))
                  (calculateResponseTime (questionStartedAt s) n) (difficulty q)
           else 0)
     \<and> (case Map_get (currentRoundAnswers s') pid of
           None \<Rightarrow> False
         | Some ad \<Rightarrow> 
            currentRoundAnswers s' = Map_set (currentRoundAnswers s) pid ad
            \<and> a_playerId ad = pid \<and> a_answer ad = a \<and> a_isCorrect ad = ar_isCorrect res
            \<and> a_pointsEarned ad = ar_pointsEarned res \<and> a_timeRemaining ad = t)
     \<and> playerScores s' =
          Map_set (playerScores s) pid
            ((case Map_get (playerScores s) pid of None \<Rightarrow> 0 | Some v \<Rightarrow> v) + ar_pointsEarned res)
     \<and> allAnswersReceived s' = (Map_size (currentRoundAnswers s') \<ge> length (s_players s))
     \<and> ar_allAnswersReceived res = allAnswersReceived s')"
  using assms by (simp add: processAnswer_def Let_def getGameSession_set Map_get_set)

lemma processAnswer_accepts:
  assumes "getGameSession gl rc = Some s" "s_status s = ''playing''"
    "\<not> Map_has (currentRoundAnswers s) pid" "currentQuestion s = Some q"
  shows "\<exists>s' res ad. processAnswer gl rc pid a t n = (Map_set gl rc s', Inr res)
     \<and> s_status s' = ''playing'' \<and> s_players s' = s_players s \<and> s_settings s' = s_settings s
     \<and> currentQuestion s' = Some q \<and> roundResults s' = roundResults s
     \<and> questions s' = questions s \<and> currentQuestionIndex s' = currentQuestionIndex s
     \<and> ar_isCorrect res = checkAnswer q a
     \<and> ar_pointsEarned res =
          (if checkAnswer q a
           then calculateQuestionPoints t (ss_questionTime (s_settings s))
                  (calculateResponseTime (questionStartedAt s) n) (difficulty q)
           else 0)
     \<and> currentRoundAnswers s' = Map_set (currentRoundAnswers s) pid ad
     \<and> a_playerId ad = pid \<and> a_answer ad = a \<and> a_isCorrect ad = ar_isCorrect res
     \<and> a_pointsEarned ad = ar_pointsEarned res \<and> a_timeRemaining ad = t
     \<and> playerScores s' =
          Map_set (playerScores s) pid
            ((case Map_get (playerScores s) pid of None \<Rightarrow> 0 | Some v \<Rightarrow> v) + ar_pointsEarned res)
     \<and> allAnswersReceived s' = (Map_size (currentRoundAnswers s') \<ge> length (s_players s))
     \<and> ar_allAnswersReceived res = allAnswersReceived s'"
proof -
  note raw = processAnswer_accepts_raw [OF assms, of a t n]
  obtain gl' r where pr: "processAnswer gl rc pid a t n = (gl', r)" by fastforce
  obtain res where r: "r = Inr res" using raw pr by (cases r) auto
  obtain s' where s': "getGameSession gl' rc = Some s'"
    using raw pr r by (cases "getGameSession gl' rc") auto
  obtain ad where ad: "Map_get (currentRoundAnswers s') pid = Some ad"
    using raw pr r s' by (cases "Map_get (currentRoundAnswers s') pid") auto
  show ?thesis
    apply (rule exI [of _ s'], rule exI [of _ res], rule exI [of _ ad])
    using raw pr r s' ad by simp
qed

lemma processAnswer_Inr:
  assumes "processAnswer gl rc pid a t n = (gl', Inr res)"
  shows "\<exists>s q. getGameSession gl rc = Some s \<and> s_status s = ''playing''
     \<and> \<not> Map_has (currentRoundAnswers s) pid \<and> currentQuestion s = Some q"
  using assms by (auto simp: processAnswer_def Let_def split: option.splits if_splits)

lemma processAnswer_Inl:
  assumes "processAnswer gl rc pid a t n = (gl', Inl e)"
  shows "gl' = gl"
  using assms by (auto simp: processAnswer_def Let_def split: option.splits if_splits)

section \<open>Properties of question generation\<close>

declare generateWrongAnswers_loop.simps [simp del]

lemma small_bound:
  assumes "0 \<le> c" "c \<le> 6"
  shows "max 1 (Math_floor (of_int c * (3 / 10))) = 1"
proof -
  have "of_int c * (3 / 10) < (2::real)" using assms by simp
  then have "Math_floor (of_int c * (3 / 10)) < 2" unfolding Math_floor_def by linarith
  then show ?thesis by simp
qed

lemma randomInt_range:
  assumes "unit_interval u" "mn \<le> mx"
  shows "mn \<le> randomInt mn mx u \<and> randomInt mn mx u \<le> mx"
proof -
  let ?n = "mx - mn + 1"
  have n: "0 < (of_int ?n :: real)" using assms(2) by simp
  have lo: "0 \<le> u * of_int ?n" using assms(1) n by (simp add: unit_interval_def)
  have hi: "u * of_int ?n < of_int ?n" using assms(1) n by (simp add: unit_interval_def)
  have "0 \<le> \<lfloor>u * of_int ?n\<rfloor>" using lo by simp
  moreover have "\<lfloor>u * of_int ?n\<rfloor> < ?n" using hi by linarith
  ultimately show ?thesis unfolding randomInt_def Math_floor_def by linarith
qed

text \<open>
  For a correct value from 0 to 6 the offset is drawn from \<open>{-1, 0, 1}\<close>, so the loop only
  ever sees the candidates \<open>max 0 (c - 1)\<close>, \<open>c\<close> and \<open>c + 1\<close>: with \<open>c\<close> itself in the
  set from the start, at most two wrong answers are ever collected and the loop condition
  \<^verbatim>\<open>wrongAnswers.length < 3\<close> stays true.
\<close>

lemma small_loop_None:
  assumes "0 \<le> c" "c \<le> 6" "\<forall>u\<in>set rs. unit_interval u"
      and "set used \<subseteq> {max 0 (c - 1), c, c + 1}" "distinct used"
      and "length wrongs + 1 = length used"
  shows "generateWrongAnswers_loop rs c 3 wrongs used = None"
  using assms
proof (induction rs arbitrary: wrongs used)
  case Nil
  have "length used = card (set used)" using Nil.prems(5) by (simp add: distinct_card)
  also have "\<dots> \<le> card {max 0 (c - 1), c, c + 1}" using Nil.prems(4) by (intro card_mono) auto
  also have "\<dots> \<le> 3" by (simp add: card_insert_if)
  finally have "length wrongs < 3" using Nil.prems(6) by simp
  then show ?case by (subst generateWrongAnswers_loop.simps) simp
next
  case (Cons u rs)
  have "length used = card (set used)" using Cons.prems(5) by (simp add: distinct_card)
  also have "\<dots> \<le> card {max 0 (c - 1), c, c + 1}" using Cons.prems(4) by (intro card_mono) auto
  also have "\<dots> \<le> 3" by (simp add: card_insert_if)
  finally have len: "length wrongs < 3" using Cons.prems(6) by simp
  have b: "max 1 (Math_floor (of_int c * (3 / 10))) = 1" using Cons.prems(1,2) by (rule small_bound)
  have u: "unit_interval u" using Cons.prems(3) by simp
  define wrong where "wrong = max 0 (c + randomInt (- 1) 1 u)"
  have r: "- 1 \<le> randomInt (- 1) 1 u \<and> randomInt (- 1) 1 u \<le> 1"
    using randomInt_range [OF u, of "- 1" 1] by simp
  have w: "wrong \<in> {max 0 (c - 1), c, c + 1}"
    using r Cons.prems(1) unfolding wrong_def by (auto simp: max_def)
  have rest: "\<forall>u\<in>set rs. unit_interval u" using Cons.prems(3) by simp
  show ?case
  proof (cases "wrong \<in> set used")
    case True
    have "generateWrongAnswers_loop rs c 3 wrongs used = None"
      using Cons.IH [OF Cons.prems(1,2) rest Cons.prems(4,5,6)] .
    then show ?thesis using True len b
      by (subst generateWrongAnswers_loop.simps) (simp add: wrong_def Let_def)
  next
    case False
    have "generateWrongAnswers_loop rs c 3 (wrongs @ [Number_toString wrong]) (used @ [wrong])
            = None"
      using Cons.IH [OF Cons.prems(1,2) rest, of "used @ [wrong]"
                       "wrongs @ [Number_toString wrong]"]
        Cons.prems(4,5,6) w False by simp
    then show ?thesis using False len b
      by (subst generateWrongAnswers_loop.simps) (simp add: wrong_def Let_def)
  qed
qed

text \<open>
  Claim C6. The distractor loop is meant to return three pairwise distinct non-negative
  values different from the correct one, for every correct value the generators produce.
  For a correct value from 0 to 6 it does not: whatever \<^verbatim>\<open>Math.random\<close> returns, and however
  long the loop runs, \<^verbatim>\<open>generateWrongAnswers(correct, 3)\<close> has not returned.
\<close>

theorem generateWrongAnswers_small_never_returns:
  assumes "0 \<le> correct" "correct \<le> 6" "\<forall>u\<in>set rs. unit_interval u"
  shows "generateWrongAnswers rs correct 3 = None"
  unfolding generateWrongAnswers_def
  using assms by (intro small_loop_None) auto

theorem generateWrongAnswers_small_never_returns_witness:
  "0 \<le> (0::int) \<and> (0::int) \<le> 6
   \<and> unit_interval 0 \<and> unit_interval (1 / 2) \<and> unit_interval (9 / 10) \<and> unit_interval (99 / 100)
   \<and> generateWrongAnswers [0, 1 / 2, 9 / 10, 99 / 100] 0 3 = None"
  using generateWrongAnswers_small_never_returns [of 0 "[0, 1 / 2, 9 / 10, 99 / 100]"]
  by (simp add: unit_interval_def)

text \<open>
  Such values are produced: an easy subtraction whose two operands are drawn equal has the
  correct answer 0, and \<^verbatim>\<open>generateSubtraction\<close> then never returns.
\<close>

lemma generateSubtraction_easy_equal_operands:
  assumes "\<forall>u\<in>set rs. unit_interval u"
  shows "generateSubtraction ''easy'' (0 # 0 # rs) = None"
proof -
  have "generateWrongAnswers_loop rs 0 3 [] [0] = None"
    using assms by (intro small_loop_None) auto
  then show ?thesis
    by (simp add: generateSubtraction_def ranges_def randomInt_def Math_floor_def
        generateWrongAnswers_def)
qed

section \<open>Scoring (claims C1, C4 and C8)\<close>

lemma spec_points_no_streak:
  assumes "0 < mt" "0 \<le> tr" "tr \<le> mt" "stk < 3"
  shows "spec_points d mt tr stk = calculateQuestionPoints tr mt rt (difficulty_name d)"
proof -
  have "0 \<le> tr / mt" "tr / mt \<le> 1" using assms by simp_all
  then have "0 \<le> fl (tr / mt)" "fl (tr / mt) \<le> 1" using fl_unit by blast+
  then have c: "spec_clamp (fl (tr / mt)) 0 1 = fl (tr / mt)" by (simp add: spec_clamp_def)
  show ?thesis
    using assms(4)
    by (cases d)
       (simp_all add: spec_points_def c calculateQuestionPoints_def multiplierOr1_def
         difficultyMultipliers_def Let_def)
qed

text \<open>
  The program's arithmetic and the exact one differ next to a tie of \<^verbatim>\<open>Math.round\<close>: on a
  medium question, 29 seconds of 100 pay 114 points where the exact bonus is 14.5, and the
  double 0.3 of 30 seconds pays 101 where the exact bonus is below 0.5.
\<close>

lemma calculateQuestionPoints_next_to_a_tie:
  "calculateQuestionPoints 29 100 0 ''medium'' = 114
   \<and> calculateQuestionPoints (fl (3 / 10)) 30 0 ''medium'' = 101"
  by code_simp

text \<open>
  Above the time limit the ratio is not clamped: 60 seconds of 30 on a hard question pay
  260 points, where the specification's formula pays 195.
\<close>

lemma calculateQuestionPoints_above_the_limit:
  "calculateQuestionPoints 60 30 0 ''hard'' = 260 \<and> spec_points Hard 30 60 0 = 195"
  by code_simp

text \<open>
  Claim C1, as amended. For every answer that \<^verbatim>\<open>processAnswer\<close> accepts and judges correct,
  with a time remaining from 0 to the time limit of the session, the points returned,
  recorded with the answer and added to the session's score of the player are those of the
  specification's formula without its streak step (the formula at streak 0), whatever the
  streak of the player is: the base, plus the rounded product of half the base and the
  ratio of the time remaining to the limit, each operation in double arithmetic.
\<close>

theorem processAnswer_points_formula:
  assumes "getGameSession gl rc = Some s" "currentQuestion s = Some q"
    and "difficulty q = difficulty_name d"
    and "ss_questionTime (s_settings s) = mt" "0 < mt" "0 \<le> t" "t \<le> mt"
    and "processAnswer gl rc pid a t n = (gl', Inr res)" "ar_isCorrect res"
  shows "ar_pointsEarned res = spec_points d mt t 0
     \<and> ar_pointsEarned res =
         Math_round
           (fl (fl (100 * spec_difficultyMultiplier d)
                + of_int (Math_round
                            (fl (fl (fl (100 * spec_difficultyMultiplier d) * (1 / 2))
                                 * fl (t / mt))))))
     \<and> map_option a_pointsEarned (recordedAnswer gl' rc pid) = Some (ar_pointsEarned res)
     \<and> map_option (\<lambda>s'. Map_get (playerScores s') pid) (getGameSession gl' rc) =
         Some (Some ((case Map_get (playerScores s) pid of None \<Rightarrow> 0 | Some v \<Rightarrow> v)
                      + ar_pointsEarned res))"
proof -
  from processAnswer_Inr [OF assms(8)] assms(1,2) have
    acc: "s_status s = ''playing''" "\<not> Map_has (currentRoundAnswers s) pid"
    by auto
  from processAnswer_accepts [OF assms(1) acc assms(2), of a t n] assms(8)
  obtain s' ad where
    s': "gl' = Map_set gl rc s'"
        "ar_isCorrect res = checkAnswer q a"
        "ar_pointsEarned res =
           (if checkAnswer q a
            then calculateQuestionPoints t (ss_questionTime (s_settings s))
                   (calculateResponseTime (questionStartedAt s) n) (difficulty q)
            else 0)"
        "currentRoundAnswers s' = Map_set (currentRoundAnswers s) pid ad"
        "a_pointsEarned ad = ar_pointsEarned res"
        "playerScores s' =
           Map_set (playerScores s) pid
             ((case Map_get (playerScores s) pid of None \<Rightarrow> 0 | Some v \<Rightarrow> v)
                + ar_pointsEarned res)"
    by auto
  have pts: "ar_pointsEarned res =
      calculateQuestionPoints t mt (calculateResponseTime (questionStartedAt s) n)
        (difficulty_name d)"
    using s'(2,3) assms(3,4,9) by simp
  have spec: "ar_pointsEarned res = spec_points d mt t 0"
    using spec_points_no_streak [OF assms(5,6,7), of 0 d] pts by simp
  have closed: "ar_pointsEarned res =
      Math_round
        (fl (fl (100 * spec_difficultyMultiplier d)
             + of_int (Math_round
                         (fl (fl (fl (100 * spec_difficultyMultiplier d) * (1 / 2))
                              * fl (t / mt))))))"
    unfolding pts
    by (cases d)
       (simp_all add: calculateQuestionPoints_def multiplierOr1_def difficultyMultipliers_def
         Let_def)
  show ?thesis
    using s'(1,4,5,6) spec closed
    by (simp add: recordedAnswer_def getGameSession_set Map_get_set)
qed

theorem processAnswer_points_formula_witness:
  "map_option (\<lambda>s. (currentQuestion s, ss_questionTime (s_settings s)))
     (getGameSession (gameSessions hard_started) ''AAAAAA'') = Some (Some q_hard, 30)
   \<and> difficulty q_hard = difficulty_name Hard
   \<and> (0::real) < 30 \<and> (0::real) \<le> 30 \<and> (30::real) \<le> 30
   \<and> snd (processAnswer (gameSessions hard_started) ''AAAAAA'' ''h'' (JString ''2,904'') 30 2000)
       = Inr hard_result
   \<and> ar_isCorrect hard_result
   \<and> ar_pointsEarned hard_result = spec_points Hard 30 30 0"
proof -
  have g: "map_option (\<lambda>s. (currentQuestion s, ss_questionTime (s_settings s)))
      (getGameSession (gameSessions hard_started) ''AAAAAA'') = Some (Some q_hard, 30)"
    by code_simp
  then obtain s where h1: "getGameSession (gameSessions hard_started) ''AAAAAA'' = Some s"
    and h2: "currentQuestion s = Some q_hard" and h4: "ss_questionTime (s_settings s) = 30"
    by (cases "getGameSession (gameSessions hard_started) ''AAAAAA''") auto
  have h3: "difficulty q_hard = difficulty_name Hard" by code_simp
  have h5: "(0::real) < 30" "(0::real) \<le> 30" "(30::real) \<le> 30" by simp_all
  have h8s: "snd (processAnswer (gameSessions hard_started) ''AAAAAA'' ''h'' (JString ''2,904'') 30 2000)
      = Inr hard_result"
    by code_simp
  have h8: "processAnswer (gameSessions hard_started) ''AAAAAA'' ''h'' (JString ''2,904'') 30 2000
      = (fst (processAnswer (gameSessions hard_started) ''AAAAAA'' ''h'' (JString ''2,904'') 30 2000),
         Inr hard_result)"
    by (simp add: prod_eq_iff h8s)
  have h9: "ar_isCorrect hard_result" by code_simp
  show ?thesis
    using processAnswer_points_formula [OF h1 h2 h3 h4 h5 h8 h9] g h3 h8s h9
    by simp
qed

text \<open>
  Claim C1 as stated fails: after four rounds answered correctly the host has a streak of
  4, answers the hard question correctly with all of the 30 seconds remaining, and has a
  streak of 5 afterwards; the answer earns 195 points, where the formula with the streak
  step gives 293.
\<close>

theorem streak_five_hard_full_time_earns_195:
  "(let before = streak_round4
    in map_option streak (getPlayer (players before) ''h'') = Some 4
       \<and> (case on_submit_answer ''h'' ''AAAAAA'' (JString ''2,904'') 30 40000 before of
            (srv, evs, tms) \<Rightarrow>
              evs = [ToSocket ''h'' (AnswerResultMsg True 195 625)]
              \<and> map_option streak (getPlayer (players srv) ''h'') = Some 5))
   \<and> spec_points Hard 30 30 5 = 293"
  by code_simp

text \<open>
  Claim C4, as amended. The two scoring functions agree when the difficulty multiplier is 1
  (medium, or a difficulty that is not in the table) and the streak is below 3, for a
  positive time limit and a time remaining from 0 to the limit.
\<close>

theorem scoring_functions_agree_medium_short_streak:
  assumes "multiplierOr1 d = 1" "mt > 0" "0 \<le> tr" "tr \<le> mt" "stk < 3"
  shows "calculatePoints tr mt stk d = calculateQuestionPoints tr mt rt d"
proof (cases "tr = 0")
  case True
  then show ?thesis
    using assms
    by (simp add: calculatePoints_def calculateQuestionPoints_def scoringConfig0_def Let_def
        fl_0 fl_50 fl_100 Math_round_def)
next
  case False
  then have "0 < tr" using assms(3) by simp
  then show ?thesis
    using assms
    by (simp add: calculatePoints_def calculateQuestionPoints_def scoringConfig0_def Let_def
        fl_50 fl_100)
qed

theorem scoring_functions_agree_medium_short_streak_witness:
  "multiplierOr1 ''medium'' = 1 \<and> (30::real) > 0 \<and> (0::real) \<le> 15 \<and> (15::real) \<le> 30
   \<and> (2::real) < 3
   \<and> calculatePoints 15 30 2 ''medium'' = calculateQuestionPoints 15 30 4000 ''medium''"
proof -
  have h: "multiplierOr1 ''medium'' = 1"
    by (simp add: multiplierOr1_def difficultyMultipliers_def)
  show ?thesis
    using scoring_functions_agree_medium_short_streak [OF h, of 30 15 2 4000] h by simp
qed

text \<open>
  Claim C4 as stated fails: on a hard question with all of the time remaining and no
  streak, the flat bonus of 50 gives 180 points and the proportional bonus gives 195; on
  a medium question with a streak of 5, the streak multiplier gives 225 points against 150;
  and on an easy question the flat bonus gives 130 points against 120.
\<close>

theorem scoring_functions_differ_on_hard:
  "calculatePoints 30 30 0 ''hard'' = 180 \<and> calculateQuestionPoints 30 30 0 ''hard'' = 195
   \<and> calculatePoints 30 30 5 ''medium'' = 225 \<and> calculateQuestionPoints 30 30 0 ''medium'' = 150
   \<and> calculatePoints 30 30 0 ''easy'' = 130 \<and> calculateQuestionPoints 30 30 0 ''easy'' = 120"
  by code_simp

text \<open>
  Claim C8. The score is to grow by non-negative deltas only, whatever \<^verbatim>\<open>timeRemaining\<close>
  a client sends. After the first round of the run the host has 91 points; a correct answer
  to the second question sent with \<^verbatim>\<open>timeRemaining = -90\<close> earns -50 points and leaves 41.
\<close>

theorem negative_time_remaining_lowers_score:
  "(let before = e2e_round1
    in map_option score (getPlayer (players before) ''h'') = Some 91
       \<and> (case on_submit_answer ''h'' ''AAAAAA'' (JString ''111'') (- 90) 14000 before of
            (srv, evs, tms) \<Rightarrow>
              evs = [ToSocket ''h'' (AnswerResultMsg True (- 50) 41)]
              \<and> map_option score (getPlayer (players srv) ''h'') = Some 41))"
  by code_simp

section \<open>Incorrect answers and the streak (claim C2)\<close>

lemma getPlayer_set:
  "getPlayer (Map_set pm k v) k' = (if k' = k then Some v else getPlayer pm k')"
  by (simp add: getPlayer_def Map_get_set)

lemma on_submit_answer_players:
  assumes "getPlayer (players srv) sid = Some p" "p_id p = sid"
    "processAnswer (gameSessions srv) rc sid a t n = (gl, Inr res)"
  shows "players (fst (on_submit_answer sid rc a t n srv))
       = fst (updatePlayerScore (players srv) sid (ar_pointsEarned res) True 0 [] ''medium'')"
  using assms
  by (simp add: on_submit_answer_def updatePlayerScore_def Let_def getPlayer_set
      split: prod.splits sum.splits option.splits)

lemma updatePlayerScore_default_streak:
  assumes "getPlayer pm sid = Some p"
  shows "map_option streak (getPlayer (fst (updatePlayerScore pm sid pts True 0 [] ''medium'')) sid)
           = Some (streak p + 1)
       \<and> map_option score (getPlayer (fst (updatePlayerScore pm sid pts True 0 [] ''medium'')) sid)
           = Some (score p + pts)"
  using assms
  by (simp add: updatePlayerScore_def Let_def getPlayer_set split: option.splits prod.splits)


text \<open>
  Claim C2. An incorrect answer is to earn 0 points and to reset the streak. It earns 0
  points, but the handler calls \<^verbatim>\<open>updatePlayerScore\<close> without \<^verbatim>\<open>isCorrect\<close>, whose
  default is \<^verbatim>\<open>true\<close>: the streak of the player grows by one.
\<close>

theorem wrong_answer_extends_streak:
  assumes "getPlayer (players srv) sid = Some p" "p_id p = sid"
    "processAnswer (gameSessions srv) rc sid a t n = (gl, Inr res)" "\<not> ar_isCorrect res"
  shows "ar_pointsEarned res = 0
     \<and> map_option streak (getPlayer (players (fst (on_submit_answer sid rc a t n srv))) sid)
         = Some (streak p + 1)"
proof -
  from processAnswer_Inr [OF assms(3)] obtain s q where
    s: "getGameSession (gameSessions srv) rc = Some s" "s_status s = ''playing''"
       "\<not> Map_has (currentRoundAnswers s) sid" "currentQuestion s = Some q"
    by blast
  from processAnswer_accepts [OF s, of a t n] assms(3,4) have "ar_pointsEarned res = 0"
    by auto
  then show ?thesis
    using on_submit_answer_players [OF assms(1,2,3)]
      updatePlayerScore_default_streak [OF assms(1), of "ar_pointsEarned res"]
    by simp
qed


theorem wrong_answer_extends_streak_witness:
  "map_option (\<lambda>p. (streak p, p_id p)) (getPlayer (players e2e_started) ''g'') = Some (0, ''g'')
   \<and> snd (processAnswer (gameSessions e2e_started) ''AAAAAA'' ''g'' (JString ''37'') 6 4000)
       = Inr \<lparr>ar_isCorrect = False, ar_pointsEarned = 0, ar_responseTime = 4000,
               ar_allAnswersReceived = False\<rparr>
   \<and> map_option streak
        (getPlayer
           (players (fst (on_submit_answer ''g'' ''AAAAAA'' (JString ''37'') 6 4000 e2e_started)))
           ''g'')
       = Some 1"
proof -
  have g: "map_option (\<lambda>p. (streak p, p_id p)) (getPlayer (players e2e_started) ''g'')
             = Some (0, ''g'')"
    by code_simp
  then obtain p where p: "getPlayer (players e2e_started) ''g'' = Some p"
    and ps: "streak p = 0" and pi: "p_id p = ''g''"
    by (cases "getPlayer (players e2e_started) ''g''") auto
  have rs: "snd (processAnswer (gameSessions e2e_started) ''AAAAAA'' ''g'' (JString ''37'') 6 4000)
      = Inr \<lparr>ar_isCorrect = False, ar_pointsEarned = 0, ar_responseTime = 4000,
              ar_allAnswersReceived = False\<rparr>"
    by code_simp
  have r: "processAnswer (gameSessions e2e_started) ''AAAAAA'' ''g'' (JString ''37'') 6 4000
      = (fst (processAnswer (gameSessions e2e_started) ''AAAAAA'' ''g'' (JString ''37'') 6 4000),
         Inr \<lparr>ar_isCorrect = False, ar_pointsEarned = 0, ar_responseTime = 4000,
               ar_allAnswersReceived = False\<rparr>)"
    by (simp add: prod_eq_iff rs)
  show ?thesis
    using wrong_answer_extends_streak [OF p pi r] g ps rs by simp
qed

section \<open>The answer barrier (claim C3)\<close>





section \<open>The end-to-end run (claim C5)\<close>

lemma unique_attempts_Some:
  "q \<noteq> None \<or> n > 0 \<Longrightarrow> fst (unique_attempts n pick k used q) \<noteq> None"
  by (induction n arbitrary: k q) (auto simp: Let_def)

lemma getQuestionSet_loop_length:
  "length (getQuestionSet_loop n pick i used qs) = length qs + n"
proof (induction n arbitrary: i used qs)
  case 0
  then show ?case by simp
next
  case (Suc n)
  obtain q used' where u: "unique_attempts 10 (pick i) 0 used None = (q, used')"
    by fastforce
  have "q \<noteq> None" using unique_attempts_Some [of None 10 "pick i" 0 used] u by simp
  then obtain question where "q = Some question" by auto
  then show ?case using u Suc.IH by simp
qed

lemma getQuestionSet_length: "length (getQuestionSet count pick) = count"
  by (simp add: getQuestionSet_def getQuestionSet_loop_length)

text \<open>
  Whatever the room's settings are, the session that \<^verbatim>\<open>start-game\<close> creates has ten
  questions and a time limit of 30 seconds: \<^verbatim>\<open>initializeGame\<close> is not given the settings.
\<close>

lemma on_start_game_session:
  assumes "snd (snd (on_start_game sid rc fq pick now srv)) \<noteq> []"
  shows "\<exists>s. getGameSession (gameSessions (fst (on_start_game sid rc fq pick now srv))) rc = Some s
           \<and> length (questions s) = 10 \<and> ss_questionTime (s_settings s) = 30
           \<and> currentQuestionIndex s = 0 \<and> currentQuestion s = Some fq"
  using assms
  by (auto simp: on_start_game_def initializeGame_def setCurrentQuestion_def noSettings_def Let_def
      getGameSession_set getQuestionSet_length split: option.splits if_splits)

text \<open>
  The callback of a round sends \<^verbatim>\<open>game-finished\<close> only when the index of the round that
  has ended is the last index of the session's questions: with ten questions, after the
  tenth round.
\<close>

lemma fire_advance_finishes:
  assumes "getGameSession (gameSessions srv) rc = Some s"
    and "snd (fire (AdvanceTimer rc) now srv) = Inr [ToRoom rc (GameFinished fr)]"
  shows "length (questions s) \<le> currentQuestionIndex s + 1"
  using assms
  by (auto simp: fire_advance_def getNextQuestion_def Let_def
      split: option.splits if_splits prod.splits sum.splits)

text \<open>
  In the run the game goes on for ten rounds: the callback of the ninth round sends question
  number 10, and the callback of the tenth sends \<^verbatim>\<open>game-finished\<close> with a history of ten
  rounds and the player with the higher score as the winner.
\<close>


lemma e2e_finishes_after_ten_rounds:
  "(case play_rounds 9 3000 (e2e_started, Inr []) of
      (srv, r) \<Rightarrow>
        r = Inr [ToRoom ''AAAAAA''
                  (NewQuestion
                     ((addition_question 59 60)\<lparr>q_id := Some ''q_10'', timeLimit := Some 30\<rparr>)
                     10 10)]
        \<and> (case fire (AdvanceTimer ''AAAAAA'') 90000
                    (fst (on_submit_answer ''g'' ''AAAAAA'' (JString ''119'') 6 88000
                       (fst (on_submit_answer ''h'' ''AAAAAA'' (JString ''119'') 8 86000 srv)))) of
              (srv', Inr [ToRoom rc (GameFinished fr)]) \<Rightarrow>
                length (fr_roundHistory fr) = 10
                \<and> map_option (\<lambda>w. (re_playerId w, re_totalScore w)) (fr_winner fr)
                    = Some (''h'', 1108)
                \<and> map (\<lambda>e. (re_playerId e, re_totalScore e)) (fr_finalRanking fr)
                    = [(''h'', 1108), (''g'', 1078)]
            | _ \<Rightarrow> False))"
  by code_simp

text \<open>
  Claim C5. In the run, the start of the game announces 3 questions. After the third round
  the game is to finish with three rounds in the history. The callback of the third round
  sends question number 4 instead: the session goes on playing, with ten questions.
\<close>

theorem e2e_third_round_does_not_finish:
  "fst (snd (on_start_game ''h'' ''AAAAAA'' q_easy pick_example 0 e2e_joined))
     = [ToRoom ''AAAAAA'' (GameStarted 3)]
   \<and> (case e2e_round3 of
         (srv, r) \<Rightarrow>
           r = Inr [ToRoom ''AAAAAA''
                     (NewQuestion
                        ((addition_question 53 60)\<lparr>q_id := Some ''q_4'', timeLimit := Some 30\<rparr>)
                        4 10)]
           \<and> map_option (\<lambda>s. (s_status s, length (roundResults s), length (questions s)))
                (getGameSession (gameSessions srv) ''AAAAAA'') = Some (''playing'', 3, 10))"
  by code_simp

section \<open>Checking answers (claim C7)\<close>

declare digits.simps [simp del]

lemma digit_chars_plain:
  "list_all (\<lambda>n. \<not> isWhiteSpace (digit_char n) \<and> toLowerCase_char (digit_char n) = digit_char n)
     [0..<10]"
  by code_simp

lemma digit_char_plain:
  assumes "n < 10"
  shows "\<not> isWhiteSpace (digit_char n) \<and> toLowerCase_char (digit_char n) = digit_char n"
proof -
  have "n \<in> set [0..<10]" using assms by simp
  then show ?thesis using digit_chars_plain unfolding list_all_iff by blast
qed

lemma minus_plain: "\<not> isWhiteSpace CHR ''-'' \<and> toLowerCase_char CHR ''-'' = CHR ''-''"
  by code_simp

lemma digits_plain:
  "c \<in> set (digits n) \<Longrightarrow> \<not> isWhiteSpace c \<and> toLowerCase_char c = c"
proof (induction n rule: digits.induct)
  case (1 n)
  show ?case
  proof (cases "n < 10")
    case True
    then have "c = digit_char n" using "1.prems" by (subst (asm) digits.simps) simp
    then show ?thesis using digit_char_plain [OF True] by blast
  next
    case False
    then have "c \<in> set (digits (n div 10)) \<or> c = digit_char (n mod 10)"
      using "1.prems" by (subst (asm) digits.simps) auto
    moreover have "n mod 10 < 10" by simp
    ultimately show ?thesis using "1.IH" [OF False] digit_char_plain [of "n mod 10"] by blast
  qed
qed

lemma Number_toString_plain:
  assumes "c \<in> set (Number_toString i)"
  shows "\<not> isWhiteSpace c \<and> toLowerCase_char c = c"
proof -
  have "c = CHR ''-'' \<or> c \<in> set (digits (nat (- i))) \<or> c \<in> set (digits (nat i))"
    using assms by (auto simp: Number_toString_def split: if_splits)
  then show ?thesis using digits_plain minus_plain by blast
qed

lemma dropWhile_none: "\<forall>c\<in>set s. \<not> P c \<Longrightarrow> dropWhile P s = s"
  by (cases s) auto

lemma normalise_Number_toString: "trim (toLowerCase (Number_toString i)) = Number_toString i"
proof -
  have l: "toLowerCase (Number_toString i) = Number_toString i"
    unfolding toLowerCase_def using Number_toString_plain by (simp add: map_idI)
  have "\<forall>c\<in>set (Number_toString i). \<not> isWhiteSpace c" using Number_toString_plain by blast
  then show ?thesis by (simp add: l trim_def dropWhile_none)
qed


text \<open>
  Claim C7. The live check is to compare a numeric answer by its string form. A question
  whose correct answer is the decimal string of \<open>n\<close> and the number \<open>n\<close> as the answer:
  \<^verbatim>\<open>checkAnswer\<close> compares the number with the string and rejects, where
  \<^verbatim>\<open>QuestionBank.validateAnswer\<close> accepts.
\<close>

theorem checkAnswer_rejects_matching_number:
  "\<not> checkAnswer (q\<lparr>correctAnswer := JString (Number_toString n)\<rparr>) (JNumber n)
   \<and> validateAnswer (q\<lparr>correctAnswer := JString (Number_toString n)\<rparr>) (JNumber n)"
  by (simp add: checkAnswer_def validateAnswer_def normalise_Number_toString)

lemma checkAnswer_number_38: "\<not> checkAnswer q_easy (JNumber 38) \<and> validateAnswer q_easy (JNumber 38)
   \<and> checkAnswer q_easy (JString '' 38 '')"
  by code_simp

section \<open>One answer per player and round (claim C9)\<close>

lemma processAnswer_keeps_recorded:
  assumes "getGameSession gl rc = Some s" "s_status s = ''playing''"
    "Map_get (currentRoundAnswers s) pid = Some ad"
  shows "\<exists>s'. getGameSession (fst (processAnswer gl rc' pid' a t n)) rc = Some s'
           \<and> s_status s' = ''playing'' \<and> Map_get (currentRoundAnswers s') pid = Some ad"
proof (cases "snd (processAnswer gl rc' pid' a t n)")
  case (Inl e)
  then have "processAnswer gl rc' pid' a t n = (fst (processAnswer gl rc' pid' a t n), Inl e)"
    by (metis prod.collapse)
  then have "fst (processAnswer gl rc' pid' a t n) = gl" by (rule processAnswer_Inl)
  then show ?thesis using assms by simp
next
  case (Inr res)
  then have pr: "processAnswer gl rc' pid' a t n = (fst (processAnswer gl rc' pid' a t n), Inr res)"
    by (metis prod.collapse)
  from processAnswer_Inr [OF pr] obtain s0 q where
    s0: "getGameSession gl rc' = Some s0" "s_status s0 = ''playing''"
        "\<not> Map_has (currentRoundAnswers s0) pid'" "currentQuestion s0 = Some q"
    by blast
  from processAnswer_accepts [OF s0, of a t n] obtain s1 res1 ad1 where
    s1: "processAnswer gl rc' pid' a t n = (Map_set gl rc' s1, Inr res1)"
        "s_status s1 = ''playing''"
        "currentRoundAnswers s1 = Map_set (currentRoundAnswers s0) pid' ad1"
    by blast
  show ?thesis
  proof (cases "rc' = rc")
    case True
    then have eq: "s0 = s" using s0(1) assms(1) by simp
    have "pid' \<noteq> pid" using s0(3) assms(3) eq by (auto simp: Map_has_def Map_get_def)
    then show ?thesis using s1 True eq assms(3) by (simp add: getGameSession_set Map_get_set)
  next
    case False
    then show ?thesis using s1 assms by (simp add: getGameSession_set)
  qed
qed

lemma processAnswers_keep_recorded:
  assumes "getGameSession gl rc = Some s" "s_status s = ''playing''"
    "Map_get (currentRoundAnswers s) pid = Some ad"
  shows "\<exists>s'. getGameSession (processAnswers gl cs) rc = Some s'
           \<and> s_status s' = ''playing'' \<and> Map_get (currentRoundAnswers s') pid = Some ad"
  using assms
proof (induction cs arbitrary: gl s)
  case Nil
  then show ?case by simp
next
  case (Cons c cs)
  obtain rc' pid' a t n where c: "c = (rc', pid', a, t, n)" by (cases c) auto
  from processAnswer_keeps_recorded [OF Cons.prems, of rc' pid' a t n] obtain s1 where
    "getGameSession (fst (processAnswer gl rc' pid' a t n)) rc = Some s1"
    "s_status s1 = ''playing''" "Map_get (currentRoundAnswers s1) pid = Some ad"
    by blast
  from Cons.IH [OF this] show ?case by (simp add: c)
qed

lemma processAnswer_rejects_recorded:
  assumes "getGameSession gl rc = Some s" "s_status s = ''playing''"
    "Map_get (currentRoundAnswers s) pid = Some ad"
  shows "processAnswer gl rc pid a t n = (gl, Inl DuplicateAnswer)"
  using assms by (simp add: processAnswer_def Map_has_def Map_get_def)


lemma processAnswer_rejects_while_recorded:
  assumes "recordedAnswer g rc pid \<noteq> None"
  shows "processAnswer g rc pid a t n = (g, Inl NotPlaying)
       \<or> processAnswer g rc pid a t n = (g, Inl DuplicateAnswer)"
  using assms
  by (auto simp: recordedAnswer_def processAnswer_def Map_has_def Map_get_def
      split: option.splits)

text \<open>
  Claim C9. Once \<^verbatim>\<open>processAnswer\<close> has accepted an answer of a player, then after any
  further \<^verbatim>\<open>processAnswer\<close> calls, by any players and for any rooms, another call for this
  player and room throws, the state after it is the state before it, and the answer
  recorded for the player is still the first one. More generally, in every state in which
  an answer of the player is recorded for the current round, a call for this player throws
  and leaves the state as it is.
\<close>

theorem second_answer_rejected:
  assumes "processAnswer gl rc pid a t n = (gl1, Inr res)"
  shows "recordedAnswer gl1 rc pid \<noteq> None
     \<and> processAnswer (processAnswers gl1 cs) rc pid a' t' n'
         = (processAnswers gl1 cs, Inl DuplicateAnswer)
     \<and> recordedAnswer (processAnswers gl1 cs) rc pid = recordedAnswer gl1 rc pid
     \<and> (\<forall>g. recordedAnswer g rc pid \<noteq> None
            \<longrightarrow> (\<exists>e. processAnswer g rc pid a' t' n' = (g, Inl e)))"
proof -
  from processAnswer_Inr [OF assms] obtain s0 q where
    s0: "getGameSession gl rc = Some s0" "s_status s0 = ''playing''"
        "\<not> Map_has (currentRoundAnswers s0) pid" "currentQuestion s0 = Some q"
    by blast
  from processAnswer_accepts [OF s0, of a t n] assms obtain s1 ad where
    s1: "gl1 = Map_set gl rc s1" "s_status s1 = ''playing''"
        "currentRoundAnswers s1 = Map_set (currentRoundAnswers s0) pid ad"
    by auto
  have g1: "getGameSession gl1 rc = Some s1" using s1(1) by (simp add: getGameSession_set)
  have r1: "Map_get (currentRoundAnswers s1) pid = Some ad" using s1(3) by (simp add: Map_get_set)
  from processAnswers_keep_recorded [OF g1 s1(2) r1, of cs] obtain s2 where
    s2: "getGameSession (processAnswers gl1 cs) rc = Some s2" "s_status s2 = ''playing''"
        "Map_get (currentRoundAnswers s2) pid = Some ad"
    by blast
  have "\<forall>g. recordedAnswer g rc pid \<noteq> None
          \<longrightarrow> (\<exists>e. processAnswer g rc pid a' t' n' = (g, Inl e))"
    using processAnswer_rejects_while_recorded by blast
  then show ?thesis
    using processAnswer_rejects_recorded [OF s2, of a' t' n'] g1 r1 s2
    by (simp add: recordedAnswer_def)
qed

theorem second_answer_rejected_witness:
  "snd (processAnswer (gameSessions hard_started) ''AAAAAA'' ''h'' (JString ''2,904'') 30 2000)
     = Inr hard_result
   \<and> processAnswer
        (processAnswers
           (fst (processAnswer (gameSessions hard_started) ''AAAAAA'' ''h'' (JString ''2,904'') 30 2000))
           [(''AAAAAA'', ''g'', JString ''2,894'', 12, 5000)])
        ''AAAAAA'' ''h'' (JString ''2,894'') 3 9000
       = (processAnswers
            (fst (processAnswer (gameSessions hard_started) ''AAAAAA'' ''h'' (JString ''2,904'') 30 2000))
            [(''AAAAAA'', ''g'', JString ''2,894'', 12, 5000)],
          Inl DuplicateAnswer)"
proof -
  have rs: "snd (processAnswer (gameSessions hard_started) ''AAAAAA'' ''h'' (JString ''2,904'') 30 2000)
      = Inr hard_result"
    by code_simp
  have r: "processAnswer (gameSessions hard_started) ''AAAAAA'' ''h'' (JString ''2,904'') 30 2000
      = (fst (processAnswer (gameSessions hard_started) ''AAAAAA'' ''h'' (JString ''2,904'') 30 2000),
         Inr hard_result)"
    by (simp add: prod_eq_iff rs)
  show ?thesis
    using second_answer_rejected [OF r, of "[(''AAAAAA'', ''g'', JString ''2,894'', 12, 5000)]"
        "JString ''2,894''" 3 9000] rs
    by simp
qed

section \<open>Deferred callbacks (claim C10)\<close>

text \<open>
  The callback of a round throws when the session of its room is missing.
\<close>

lemma fire_advance_without_session:
  assumes "getGameSession (gameSessions srv) rc = None"
  shows "fire (AdvanceTimer rc) now srv = (srv, Inl SessionNotFound)"
  using assms by (simp add: fire_advance_def getNextQuestion_def getFinalResults_def)

text \<open>
  So it does after \<^verbatim>\<open>closeGameSession\<close>, whose \<^verbatim>\<open>clearTimeout\<close> calls cancel nothing:
  \<^verbatim>\<open>getNextQuestion\<close> returns \<^verbatim>\<open>null\<close> for the missing session, the callback takes this
  for the end of the game, and \<^verbatim>\<open>getFinalResults\<close> throws.
\<close>

lemma fire_advance_after_closeGameSession:
  "fire (AdvanceTimer rc) now (srv\<lparr>gameSessions := fst (closeGameSession (gameSessions srv) rc)\<rparr>)
     = (srv\<lparr>gameSessions := fst (closeGameSession (gameSessions srv) rc)\<rparr>, Inl SessionNotFound)"
proof -
  have "getGameSession (fst (closeGameSession (gameSessions srv) rc)) rc = None"
    by (simp add: closeGameSession_def getGameSession_def Map_get_delete split: option.splits)
  then show ?thesis by (intro fire_advance_without_session) simp
qed

text \<open>The callback of the first question sends the question without looking at the state.\<close>

lemma fire_first_question_no_check:
  "fire (FirstQuestionTimer rc q limit) now srv = (srv, Inr [ToRoom rc (NewQuestion q 1 limit)])"
  by simp

text \<open>
  Claim C10. A callback that runs after its room is gone is to do nothing. In the run both
  players answer the first question, which schedules the callback, and then disconnect,
  which closes the room. The callback then moves the session to its second question and
  throws a \<^verbatim>\<open>TypeError\<close>.
\<close>

theorem advance_callback_after_room_closed:
  "(let srv = e2e_abandoned
    in rooms srv = []
       \<and> map_option (\<lambda>s. (s_status s, currentQuestionIndex s))
            (getGameSession (gameSessions srv) ''AAAAAA'') = Some (''showing_results'', 0)
       \<and> (case fire (AdvanceTimer ''AAAAAA'') 9000 srv of
            (srv', r) \<Rightarrow>
              r = Inl TypeError
              \<and> map_option (\<lambda>s. (s_status s, currentQuestionIndex s))
                   (getGameSession (gameSessions srv') ''AAAAAA'') = Some (''playing'', 1)))"
  by code_simp

end
